theory Spec2Isabelle
  imports Main "HOL-Library.Sublist"
begin

section \<open>Strings as the JavaScript sources use them\<close>

text \<open>
  The portal's handlers are JavaScript. A JavaScript string is modelled as a
  \<^typ>\<open>string\<close>, one \<^typ>\<open>char\<close> per code unit, for text in the ASCII range:
  case mapping and the white space class below are the ASCII part of what
  \<^verbatim>\<open>toUpperCase\<close>, \<^verbatim>\<open>toLowerCase\<close>, \<^verbatim>\<open>trim\<close> and the regular expression class
  \<^verbatim>\<open>\s\<close> do. Characters outside ASCII are left alone by the case mappings and are
  never white space here.
\<close>

abbreviation nl :: char where
  "nl \<equiv> CHR 0x0A"

definition is_space :: "char \<Rightarrow> bool" where
  "is_space c = (c \<in> set [CHR 0x09, CHR 0x0A, CHR 0x0B, CHR 0x0C, CHR 0x0D, CHR '' ''])"

definition trim :: "string \<Rightarrow> string" where
  "trim s = rev (dropWhile is_space (rev (dropWhile is_space s)))"

definition lower_letters :: string where
  "lower_letters = ''abcdefghijklmnopqrstuvwxyz''"

definition upper_letters :: string where
  "upper_letters = ''ABCDEFGHIJKLMNOPQRSTUVWXYZ''"

definition to_upper :: "char \<Rightarrow> char" where
  "to_upper c = (case map_of (zip lower_letters upper_letters) c of None \<Rightarrow> c | Some u \<Rightarrow> u)"

definition to_lower :: "char \<Rightarrow> char" where
  "to_lower c = (case map_of (zip upper_letters lower_letters) c of None \<Rightarrow> c | Some l \<Rightarrow> l)"

definition toUpperCase :: "string \<Rightarrow> string" where
  "toUpperCase s = map to_upper s"


text \<open>Text in the ASCII range, where the case mappings and the white space class above
  are those of JavaScript.\<close>

definition is_ascii :: "char \<Rightarrow> bool" where
  "is_ascii c = (of_char c < (128::nat))"

definition ascii :: "string \<Rightarrow> bool" where
  "ascii s = list_all is_ascii s"

text \<open>\<^verbatim>\<open>s.startsWith(p)\<close>: the first \<open>p.length\<close> code units of \<open>s\<close> are \<open>p\<close>.\<close>

definition startsWith :: "string \<Rightarrow> string \<Rightarrow> bool" where
  "startsWith s p = (length p \<le> length s \<and> take (length p) s = p)"


definition substring :: "string \<Rightarrow> nat \<Rightarrow> nat \<Rightarrow> string" where
  "substring s a b = take (b - a) (drop a s)"

text \<open>An occurrence of \<open>p\<close> in \<open>s\<close> at index \<open>i\<close>.\<close>

definition occurs_at :: "string \<Rightarrow> string \<Rightarrow> nat \<Rightarrow> bool" where
  "occurs_at p s i = (i + length p \<le> length s \<and> take (length p) (drop i s) = p)"

text \<open>\<^verbatim>\<open>s.lastIndexOf(p)\<close>: the search runs from the highest start index down;
  \<open>None\<close> stands for the result \<open>-1\<close>.\<close>

fun lastIndexFrom :: "string \<Rightarrow> string \<Rightarrow> nat \<Rightarrow> nat option" where
  "lastIndexFrom p s 0 = (if occurs_at p s 0 then Some 0 else None)"
| "lastIndexFrom p s (Suc i) = (if occurs_at p s (Suc i) then Some (Suc i) else lastIndexFrom p s i)"



section \<open>Catalog reader: \<^verbatim>\<open>api/square-inventory.js\<close>\<close>

subsection \<open>Splitting the category name\<close>


subsection \<open>The artwork record\<close>

text \<open>
  The local shape of an artwork, as the reader returns it and the writer receives it
  (the portal sends back what it was given, overlaid with the form's fields).
  \<open>squareId\<close> and \<open>variationId\<close> are the provider's identifiers; \<open>None\<close> is an absent
  (or \<^verbatim>\<open>null\<close>) field. The text fields are strings, the empty string standing for an
  absent one as well: the handlers only test them for truthiness or default them with
  \<^verbatim>\<open>|| ''\<close>. \<open>price\<close> is carried as the text
  it was sent as (its conversion is floating point arithmetic and is not modelled).
  \<open>item_id\<close> is the field \<^verbatim>\<open>id\<close>, \<open>artType\<close> the field \<^verbatim>\<open>type\<close>.

  \<open>quantity\<close> is the JSON value of the field: the reader returns a number, the portal's
  form holds the quantity as text (\<^verbatim>\<open>quantity: '1'\<close>) and spreads it over the record it
  uploads, and the field can be absent or \<^verbatim>\<open>null\<close>. Numbers are whole numbers here;
  booleans, arrays and objects are left out.
\<close>

datatype quantity_value =
  QAbsent
| QNull
| QNumber int
| QString string

record artwork =
  item_id :: string
  squareId :: "string option"
  variationId :: "string option"
  version :: "int option"
  variationVersion :: "int option"
  title :: string
  artistName :: string
  category :: string
  artType :: string
  medium :: string
  description :: string
  dimensions :: string
  height :: string
  width :: string
  price :: string
  sku :: string
  quantity :: quantity_value
  discounts :: string

text \<open>Truthiness of an optional string: present and not empty.\<close>

fun truthy :: "string option \<Rightarrow> bool" where
  "truthy None = False"
| "truthy (Some s) = (s \<noteq> [])"

subsection \<open>Decoding the description\<close>

text \<open>
  \<^verbatim>\<open>
  const mediumMatch = description.match(/Medium:[^\S\n]*([^\n]*)/i);
  if (mediumMatch) {
    medium = mediumMatch[1].trim();
    cleanDescription = cleanDescription.replace(/Medium:[^\S\n]*[^\n]*\n?/i, '');
  }
  const dimMatch = description.match(/Dimensions:[^\S\n]*([^\n]*)/i);
  if (dimMatch) {
    dimensions = dimMatch[1].trim();
    cleanDescription = cleanDescription.replace(/Dimensions:[^\S\n]*[^\n]*\n?/i, '');
  }
  cleanDescription = cleanDescription.replace(/Discounts:[^\S\n]*[^\n]*\n?/i, '').trim();
  \<close>
  Each regular expression is a literal label, matched without regard to case at the
  leftmost index where it fits, followed by two greedy classes that cannot fail: a
  match exists exactly when the label occurs, the group is the rest of the line after
  its leading white space, and the replaced text runs to the end of the line and over
  one line feed when there is one.
\<close>

text \<open>\<open>[^\S\n]\<close>: white space other than the line feed.\<close>

definition is_hspace :: "char \<Rightarrow> bool" where
  "is_hspace c = (is_space c \<and> c \<noteq> nl)"

text \<open>The literal \<open>lab\<close> matches at the start of the text, ignoring case.\<close>

fun ci_prefix :: "string \<Rightarrow> string \<Rightarrow> bool" where
  "ci_prefix [] s = True"
| "ci_prefix (p # ps) [] = False"
| "ci_prefix (p # ps) (c # cs) = (to_upper p = to_upper c \<and> ci_prefix ps cs)"

text \<open>The leftmost match of the label: the text before it and the text after it.\<close>

fun find_label :: "string \<Rightarrow> string \<Rightarrow> (string \<times> string) option" where
  "find_label lab [] = (if ci_prefix lab [] then Some ([], []) else None)"
| "find_label lab (c # cs) =
     (if ci_prefix lab (c # cs) then Some ([], drop (length lab) (c # cs))
      else (case find_label lab cs of
              None \<Rightarrow> None
            | Some (before, after) \<Rightarrow> Some (c # before, after)))"

text \<open>\<^verbatim>\<open>s.match(/Label[^\S\n]*([^\n]*)/i)\<close>: the group, or \<open>None\<close> without a match.\<close>

definition label_match :: "string \<Rightarrow> string \<Rightarrow> string option" where
  "label_match lab s =
     (case find_label lab s of
        None \<Rightarrow> None
      | Some (before, after) \<Rightarrow> Some (takeWhile (\<lambda>c. c \<noteq> nl) (dropWhile is_hspace after)))"

text \<open>\<^verbatim>\<open>s.replace(/Label[^\S\n]*[^\n]*\n?/i, '')\<close>: the first match is cut out.\<close>

definition label_remove :: "string \<Rightarrow> string \<Rightarrow> string" where
  "label_remove lab s =
     (case find_label lab s of
        None \<Rightarrow> s
      | Some (before, after) \<Rightarrow>
          before @ (case dropWhile (\<lambda>c. c \<noteq> nl) after of [] \<Rightarrow> [] | c # rest \<Rightarrow> rest))"

record decoded =
  dec_medium :: string
  dec_dimensions :: string
  dec_cleanDescription :: string

definition decodeDescription :: "string \<Rightarrow> decoded" where
  "decodeDescription descr =
     (let mediumMatch = label_match ''Medium:'' descr;
          medium0 = (case mediumMatch of None \<Rightarrow> [] | Some g \<Rightarrow> trim g);
          clean1 = (case mediumMatch of None \<Rightarrow> descr | Some g \<Rightarrow> label_remove ''Medium:'' descr);
          dimMatch = label_match ''Dimensions:'' descr;
          dimensions0 = (case dimMatch of None \<Rightarrow> [] | Some g \<Rightarrow> trim g);
          clean2 = (case dimMatch of None \<Rightarrow> clean1 | Some g \<Rightarrow> label_remove ''Dimensions:'' clean1);
          clean3 = trim (label_remove ''Discounts:'' clean2)
      in \<lparr>dec_medium = medium0, dec_dimensions = dimensions0, dec_cleanDescription = clean3\<rparr>)"

subsection \<open>Catalog objects and inventory counts\<close>







text \<open>
  \<^verbatim>\<open>parseInt(text)\<close> on ASCII text: leading white space and a sign are skipped, a
  prefix \<^verbatim>\<open>0x\<close> selects base 16, and the longest run of digits is read; \<open>None\<close> is
  \<^verbatim>\<open>NaN\<close> (no digit). The value is an unbounded integer here, a double there.
\<close>

definition digit_val :: "char \<Rightarrow> nat option" where
  "digit_val c = map_of (zip ''0123456789abcdefABCDEF''
       [0, 1, 2, 3, 4, 5, 6, 7, 8, 9, 10, 11, 12, 13, 14, 15, 10, 11, 12, 13, 14, 15]) c"

definition is_digit_of :: "nat \<Rightarrow> char \<Rightarrow> bool" where
  "is_digit_of radix c = (case digit_val c of None \<Rightarrow> False | Some d \<Rightarrow> d < radix)"










subsection \<open>From catalog objects to artwork records\<close>

text \<open>
  \<^verbatim>\<open>dimensions.match(/(\d+\.?\d*)\s*["']\s*x\s*(\d+\.?\d*)/i)\<close>: every part of the
  pattern is greedy and what follows it can never start with a character the part
  gave back, so at each start index the greedy reading decides; the leftmost start
  index with a match wins.
\<close>

definition is_digit :: "char \<Rightarrow> bool" where
  "is_digit c = (c \<in> set ''0123456789'')"







subsection \<open>The artist filter\<close>



section \<open>Catalog writer: \<^verbatim>\<open>api/square-upload.js\<close>\<close>

text \<open>
  The file holds three handlers. This section follows the one that creates and updates
  (\<^verbatim>\<open>export default async function handler\<close>, with \<^verbatim>\<open>getInitials\<close>, \<^verbatim>\<open>getSkuNumber\<close>
  and \<^verbatim>\<open>setInventoryQuantity\<close>); the handler that keeps the two category caches is
  modelled in the next section.
\<close>

subsection \<open>SKU\<close>

text \<open>
  \<^verbatim>\<open>/[\s\-]+/\<close> separates words: a maximal run of white space and hyphens.
  \<^verbatim>\<open>s.split(/[\s\-]+/)\<close> yields the pieces between the runs, an empty first piece when
  the text starts with a run and an empty last piece when it ends with one; the empty
  text yields one empty piece.
\<close>

definition is_sep :: "char \<Rightarrow> bool" where
  "is_sep c = (is_space c \<or> c = CHR ''-'')"

function split_words :: "string \<Rightarrow> string \<Rightarrow> string list" where
  "split_words cur [] = [cur]"
| "split_words cur (c # cs) =
     (if is_sep c then cur # split_words [] (dropWhile is_sep cs)
      else split_words (cur @ [c]) cs)"
  by pat_completeness auto
termination
  by (relation "measure (\<lambda>(cur, s). length s)")
    (auto simp: less_Suc_eq_le length_dropWhile_le)

text \<open>
  \<^verbatim>\<open>
  const getInitials = (name) => {
    if (!name) return 'XXX';
    const words = name.trim().split(/[\s\-]+/);
    let initials = '';
    for (const word of words) {
      if (word.length > 0) initials += word[0].toUpperCase();
    }
    if (initials.length < 2) initials = name.substring(0, 3).toUpperCase();
    return initials.substring(0, 4);
  };
  \<close>
\<close>

definition word_initials :: "string \<Rightarrow> string" where
  "word_initials name =
     concat (map (\<lambda>word. case word of [] \<Rightarrow> [] | c # cs \<Rightarrow> [to_upper c]) (split_words [] (trim name)))"

definition getInitials :: "string \<Rightarrow> string" where
  "getInitials name =
     (if name = [] then ''XXX''
      else (let initials = word_initials name;
                initials2 = (if length initials < 2 then toUpperCase (substring name 0 3)
                             else initials)
            in substring initials2 0 4))"

text \<open>The decimal numeral of a number, as \<^verbatim>\<open>toString()\<close> prints a non-negative integer.\<close>

definition digit_char :: "nat \<Rightarrow> char" where
  "digit_char d = ''0123456789'' ! d"

fun show_nat :: "nat \<Rightarrow> string" where
  "show_nat n = (if n < 10 then [digit_char n] else show_nat (n div 10) @ [digit_char (n mod 10)])"

text \<open>
  \<^verbatim>\<open>
  const getSkuNumber = () => {
    const timestamp = Date.now().toString();
    return timestamp.slice(-4);
  };
  \<close>
  with the value of \<^verbatim>\<open>Date.now()\<close> as argument; \<^verbatim>\<open>slice(-4)\<close> keeps the last four
  code units, or all of a shorter text.
\<close>

definition getSkuNumber :: "nat \<Rightarrow> string" where
  "getSkuNumber now = (let timestamp = show_nat now in drop (length timestamp - 4) timestamp)"

text \<open>\<^verbatim>\<open>const sku = `${initials}${skuNum}`;\<close>\<close>

definition makeSku :: "string \<Rightarrow> nat \<Rightarrow> string" where
  "makeSku name now = getInitials name @ getSkuNumber now"

subsection \<open>Quantity\<close>

text \<open>
  The create path reads the quantity three times: \<^verbatim>\<open>item.quantity || 1\<close>,
  \<^verbatim>\<open>quantity > 0\<close> and \<^verbatim>\<open>String(quantity)\<close>, each on the JSON value as it came.

  \<^verbatim>\<open>item.quantity || 1\<close>: an absent field, \<^verbatim>\<open>null\<close>, the number 0 and the empty text are
  falsy and give the number 1; every other value is kept as it is, a text as a text.
\<close>

fun quantityOrOne :: "quantity_value \<Rightarrow> quantity_value" where
  "quantityOrOne QAbsent = QNumber 1"
| "quantityOrOne QNull = QNumber 1"
| "quantityOrOne (QNumber n) = (if n = 0 then QNumber 1 else QNumber n)"
| "quantityOrOne (QString s) = (if s = [] then QNumber 1 else QString s)"

text \<open>
  \<^verbatim>\<open>quantity > 0\<close> converts a text to a number first. Surrounding white space is
  dropped; the empty text is 0; \<^verbatim>\<open>0x\<close>, \<^verbatim>\<open>0o\<close> and \<^verbatim>\<open>0b\<close> (in either case) introduce
  hexadecimal, octal and binary digits and take no sign (the value is greater than 0
  when a digit is not 0); otherwise the text is an
  optional sign followed by \<^verbatim>\<open>Infinity\<close> or by a decimal literal (digits, with an
  optional fraction and an optional exponent, digits on at least one side of the
  point); every other text is \<^verbatim>\<open>NaN\<close>, which is not greater than 0.
  A decimal literal denotes \<open>m \<times> 10\<^sup>k\<close> for the number \<open>m\<close> of its digits and the
  exponent \<open>k\<close> less the number of fraction digits; the nearest double is greater than
  0 unless the value is at most \<open>2\<^sup>-\<^sup>1\<^sup>0\<^sup>7\<^sup>5\<close>, half of the least positive double.
\<close>

definition nondecimal_positive :: "string \<Rightarrow> bool option" where
  "nondecimal_positive t =
     (case t of
        z # x # ds \<Rightarrow>
          (let radix = (if to_lower x = CHR ''x'' then 16
                        else if to_lower x = CHR ''o'' then 8
                        else if to_lower x = CHR ''b'' then 2 else 0)
           in if z = CHR ''0'' \<and> radix \<noteq> 0 \<and> ds \<noteq> [] \<and> list_all (is_digit_of radix) ds
              then Some (list_ex (\<lambda>c. c \<noteq> CHR ''0'') ds)
              else None)
      | other \<Rightarrow> None)"

definition decimal_value :: "string \<Rightarrow> int" where
  "decimal_value ds = foldl (\<lambda>acc c. acc * 10 + int (the (digit_val c))) 0 ds"

definition exponent_of :: "string \<Rightarrow> int option" where
  "exponent_of r =
     (case r of
        [] \<Rightarrow> Some 0
      | c # r1 \<Rightarrow>
          if to_lower c = CHR ''e'' then
            (let ds = (if startsWith r1 ''-'' \<or> startsWith r1 ''+'' then drop 1 r1 else r1)
             in if ds \<noteq> [] \<and> list_all is_digit ds
                then Some ((if startsWith r1 ''-'' then - 1 else 1) * decimal_value ds)
                else None)
          else None)"

definition above_underflow :: "int \<Rightarrow> int \<Rightarrow> bool" where
  "above_underflow m k = (0 < m \<and> (0 \<le> k \<or> 10 ^ nat (- k) < m * 2 ^ 1075))"

definition decimal_positive :: "string \<Rightarrow> bool" where
  "decimal_positive u =
     (if u = ''Infinity'' then True
      else (let ip = takeWhile is_digit u;
                r1 = dropWhile is_digit u;
                dot = startsWith r1 ''.'';
                fp = (if dot then takeWhile is_digit (drop 1 r1) else []);
                r2 = (if dot then dropWhile is_digit (drop 1 r1) else r1)
            in if ip = [] \<and> fp = [] then False
               else (case exponent_of r2 of
                       None \<Rightarrow> False
                     | Some ex \<Rightarrow>
                         above_underflow (decimal_value (ip @ fp)) (ex - int (length fp)))))"

definition text_positive :: "string \<Rightarrow> bool" where
  "text_positive s =
     (let t = trim s
      in case nondecimal_positive t of
           Some p \<Rightarrow> p
         | None \<Rightarrow>
             if startsWith t ''-'' then False
             else decimal_positive (if startsWith t ''+'' then drop 1 t else t))"

fun quantityPositive :: "quantity_value \<Rightarrow> bool" where
  "quantityPositive QAbsent = False"
| "quantityPositive QNull = False"
| "quantityPositive (QNumber n) = (0 < n)"
| "quantityPositive (QString s) = text_positive s"

text \<open>\<^verbatim>\<open>String(quantity)\<close>: a text is itself, a whole number (below \<open>10\<^sup>2\<^sup>1\<close> in size) its
  decimal numeral.\<close>

definition show_int :: "int \<Rightarrow> string" where
  "show_int n = (if n < 0 then CHR ''-'' # show_nat (nat (- n)) else show_nat (nat n))"

fun quantityString :: "quantity_value \<Rightarrow> string" where
  "quantityString QAbsent = ''undefined''"
| "quantityString QNull = ''null''"
| "quantityString (QNumber n) = show_int n"
| "quantityString (QString s) = s"

subsection \<open>Encoding the description\<close>

text \<open>
  \<^verbatim>\<open>
  const dimensions = item.dimensions ||
    (item.height && item.width ? `${item.height}" x ${item.width}"` : '');
  let description = item.description || '';
  const extraLines = [];
  if (item.medium) extraLines.push(`Medium: ${item.medium}`);
  if (dimensions) extraLines.push(`Dimensions: ${dimensions}`);
  if (item.discounts) extraLines.push(`Discounts: ${item.discounts}`);
  if (extraLines.length > 0) description += '\n\n' + extraLines.join('\n');
  description = description.trim();
  \<close>
\<close>

definition dimensionsOf :: "artwork \<Rightarrow> string" where
  "dimensionsOf item =
     (if dimensions item \<noteq> [] then dimensions item
      else if height item \<noteq> [] \<and> width item \<noteq> []
           then height item @ [CHR 0x22] @ '' x '' @ width item @ [CHR 0x22]
           else [])"

fun join_lines :: "string list \<Rightarrow> string" where
  "join_lines [] = []"
| "join_lines [l] = l"
| "join_lines (l # m # ls) = l @ [nl] @ join_lines (m # ls)"

definition extraLinesOf :: "artwork \<Rightarrow> string list" where
  "extraLinesOf item =
     (if medium item \<noteq> [] then [''Medium: '' @ medium item] else [])
     @ (if dimensionsOf item \<noteq> [] then [''Dimensions: '' @ dimensionsOf item] else [])
     @ (if discounts item \<noteq> [] then [''Discounts: '' @ discounts item] else [])"

definition encodeDescription :: "artwork \<Rightarrow> string" where
  "encodeDescription item =
     trim (if extraLinesOf item \<noteq> []
           then description item @ [nl, nl] @ join_lines (extraLinesOf item)
           else description item)"

subsection \<open>Requests, replies and the provider\<close>

text \<open>
  The outbound calls of the handlers, with the content that identifies them. Left out
  are the HTTP headers, the location id, the idempotency keys and the
  \<^verbatim>\<open>occurred_at\<close> time stamps. \<open>vo_price\<close> is the price text of the record: the amount
  sent is \<^verbatim>\<open>Math.round(parseFloat(item.price) * 100)\<close>, floating point arithmetic that
  is not modelled. \<open>io_categories = None\<close> is an object without the field
  \<^verbatim>\<open>categories\<close>.
\<close>

record variation_object =
  vo_id :: string
  vo_version :: "int option"
  vo_item_id :: "string option"
  vo_sku :: string
  vo_price :: string
  vo_track_inventory :: bool

record item_object =
  io_id :: string
  io_version :: "int option"
  io_name :: string
  io_description :: string
  io_categories :: "string list option"
  io_reporting_category :: "string option"
  io_variations :: "variation_object list"

datatype request =
  SearchCategory string
| CreateCategory string string
| UpsertItem item_object
| PhysicalCount string string
| DeleteObject string

text \<open>
  \<open>SearchCategory name\<close> is the exact-name search among category objects,
  \<open>CreateCategory tempId name\<close> and \<open>UpsertItem object\<close> are posts to
  \<^verbatim>\<open>/v2/catalog/object\<close>, \<open>PhysicalCount variationId quantity\<close> is the inventory change
  of type \<^verbatim>\<open>PHYSICAL_COUNT\<close> (its quantity is the text \<^verbatim>\<open>String(quantity)\<close>) and \<open>DeleteObject id\<close> the delete of a catalog object.

  A call either throws (\<^verbatim>\<open>fetch\<close> rejects or the body is not JSON; the text is the
  exception's message) or delivers \<^verbatim>\<open>response.ok\<close> and the parsed body, of which the
  handlers read: \<^verbatim>\<open>data.errors?.[0]?.detail\<close>, the ids of \<^verbatim>\<open>data.objects\<close>
  (the empty list also for an absent field), \<^verbatim>\<open>data.catalog_object?.id\<close>, and the id and
  sku of \<^verbatim>\<open>data.catalog_object?.item_data?.variations?.[0]\<close>.
\<close>

record reply_body =
  rb_ok :: bool
  rb_error_detail :: "string option"
  rb_objects :: "string option list"
  rb_catalog_object_id :: "string option"
  rb_variation_id :: "string option"
  rb_variation_sku :: "string option"

datatype response =
  Throws string
| Reply reply_body

text \<open>
  The provider and the clock are inputs of a run: \<open>reply_at e k\<close> is what the call
  number \<open>k\<close> of the run (counted from 0) comes back with, \<open>now_at e k\<close> is what
  \<^verbatim>\<open>Date.now()\<close> returns when \<open>k\<close> calls have been made. A run carries the list of the
  requests it has made so far.
\<close>

record env =
  reply_at :: "nat \<Rightarrow> response"
  now_at :: "nat \<Rightarrow> nat"

definition fetch :: "env \<Rightarrow> request \<Rightarrow> request list \<Rightarrow> response \<times> request list" where
  "fetch e req log = (reply_at e (length log), log @ [req])"

text \<open>\<^verbatim>\<open>data.objects?.[0]?.id\<close>\<close>

definition first_object_id :: "reply_body \<Rightarrow> string option" where
  "first_object_id d = (case rb_objects d of [] \<Rightarrow> None | x # xs \<Rightarrow> x)"

text \<open>\<^verbatim>\<open>a || b\<close> on optional strings.\<close>

definition or_else :: "string option \<Rightarrow> string option \<Rightarrow> string option" where
  "or_else a b = (if truthy a then a else b)"

subsection \<open>One record of the batch\<close>

text \<open>
  The entry pushed to \<^verbatim>\<open>results\<close> for one record. The fields an entry does not have are
  \<open>None\<close> or empty.
\<close>

record upload_result =
  originalId :: string
  res_squareId :: "string option"
  res_variationId :: "string option"
  res_sku :: string
  res_category :: string
  res_quantity :: quantity_value
  success :: bool
  res_error :: "string option"
  action :: string

text \<open>
  Find or create a category, as the handler does in three places (update path, create
  path, reporting category), each time with its own temporary object id:
  \<^verbatim>\<open>
  categoryId = searchData.objects?.[0]?.id;
  if (!categoryId) {
    const catResponse = await fetch('https://connect.squareup.com/v2/catalog/object', ...);
    const catData = await catResponse.json();
    categoryId = catData.catalog_object?.id;
  }
  \<close>
  \<open>Inl\<close> is an exception on the way; \<open>Inr\<close> carries the id, which may be absent.
\<close>

definition findOrCreateCategory ::
  "env \<Rightarrow> string \<Rightarrow> string \<Rightarrow> request list \<Rightarrow> (string + string option) \<times> request list" where
  "findOrCreateCategory e name tempId log =
     (case fetch e (SearchCategory name) log of
        (Throws msg, log1) \<Rightarrow> (Inl msg, log1)
      | (Reply searchData, log1) \<Rightarrow>
          if truthy (first_object_id searchData) then (Inr (first_object_id searchData), log1)
          else (case fetch e (CreateCategory tempId name) log1 of
                  (Throws msg, log2) \<Rightarrow> (Inl msg, log2)
                | (Reply catData, log2) \<Rightarrow> (Inr (rb_catalog_object_id catData), log2)))"

text \<open>
  \<^verbatim>\<open>setInventoryQuantity\<close>: the call is wrapped in its own \<^verbatim>\<open>try\<close>/\<^verbatim>\<open>catch\<close>; it
  returns \<^verbatim>\<open>false\<close> when the call throws or the response is not \<^verbatim>\<open>ok\<close>.
\<close>

definition setInventoryQuantity ::
  "env \<Rightarrow> string \<Rightarrow> quantity_value \<Rightarrow> request list \<Rightarrow> bool \<times> request list" where
  "setInventoryQuantity e vid qty log =
     (case fetch e (PhysicalCount vid (quantityString qty)) log of
        (Throws msg, log1) \<Rightarrow> (False, log1)
      | (Reply d, log1) \<Rightarrow> (rb_ok d, log1))"

text \<open>The update path: \<^verbatim>\<open>if (item.squareId) { ... continue; }\<close>\<close>

definition updateObjectOf :: "artwork \<Rightarrow> string \<Rightarrow> string option \<Rightarrow> item_object" where
  "updateObjectOf item descr categoryId =
     \<lparr>io_id = the (squareId item),
      io_version = version item,
      io_name = title item,
      io_description = descr,
      io_categories = (if truthy categoryId then Some [the categoryId] else None),
      io_reporting_category = None,
      io_variations =
        (if truthy (variationId item) \<and> price item \<noteq> [] then
           [\<lparr>vo_id = the (variationId item), vo_version = variationVersion item,
             vo_item_id = squareId item, vo_sku = sku item, vo_price = price item,
             vo_track_inventory = False\<rparr>]
         else [])\<rparr>"

definition processUpdate :: "env \<Rightarrow> artwork \<Rightarrow> request list \<Rightarrow> (string + upload_result) \<times> request list" where
  "processUpdate e item log =
     (case (if artistName item \<noteq> [] \<and> artType item \<noteq> []
            then findOrCreateCategory e (artistName item @ '' - '' @ artType item)
                   (''#cat-edit-'' @ the (squareId item)) log
            else (Inr None, log)) of
        (Inl msg, log1) \<Rightarrow> (Inl msg, log1)
      | (Inr categoryId, log1) \<Rightarrow>
          (case fetch e (UpsertItem (updateObjectOf item (encodeDescription item) categoryId)) log1 of
             (Throws msg, log2) \<Rightarrow> (Inl msg, log2)
           | (Reply d, log2) \<Rightarrow>
               if \<not> rb_ok d then
                 (Inr \<lparr>originalId = item_id item, res_squareId = squareId item,
                       res_variationId = None, res_sku = [], res_category = [],
                       res_quantity = QAbsent, success = False,
                       res_error = Some (case rb_error_detail d of
                                           None \<Rightarrow> ''Failed to update''
                                         | Some detail \<Rightarrow>
                                             if detail = [] then ''Failed to update'' else detail),
                       action = []\<rparr>, log2)
               else
                 (Inr \<lparr>originalId = item_id item,
                       res_squareId = or_else (rb_catalog_object_id d) (squareId item),
                       res_variationId = None,
                       res_sku = (if truthy (rb_variation_sku d) then the (rb_variation_sku d)
                                  else sku item),
                       res_category = [], res_quantity = QAbsent, success = True,
                       res_error = None, action = ''updated''\<rparr>, log2)))"

text \<open>The create path: the \<^verbatim>\<open>else\<close> branch. A response that is not \<^verbatim>\<open>ok\<close> is thrown:
  \<^verbatim>\<open>
  if (!response.ok) { console.error('Square create error:', data);
    throw new Error(data.errors?.[0]?.detail || 'Failed to upload to Square'); }
  \<close>
\<close>

definition createObjectOf :: "artwork \<Rightarrow> string \<Rightarrow> string \<Rightarrow> string option \<Rightarrow> string option \<Rightarrow> item_object" where
  "createObjectOf item descr sku0 categoryId reportingCategoryId =
     \<lparr>io_id = ''#item-'' @ item_id item,
      io_version = None,
      io_name = title item,
      io_description = descr,
      io_categories = (if truthy categoryId then Some [the categoryId] else Some []),
      io_reporting_category = (if truthy reportingCategoryId then reportingCategoryId else None),
      io_variations =
        [\<lparr>vo_id = ''#variation-'' @ item_id item, vo_version = None, vo_item_id = None,
          vo_sku = sku0, vo_price = price item, vo_track_inventory = True\<rparr>]\<rparr>"

text \<open>
  What follows a create response that is \<^verbatim>\<open>ok\<close>:
  \<^verbatim>\<open>
  const variationId = data.catalog_object?.item_data?.variations?.[0]?.id;
  const quantity = item.quantity || 1;
  if (variationId && quantity > 0) {
    const inventorySet = await setInventoryQuantity(variationId, quantity);
    if (!inventorySet) {
      console.warn('Failed to set inventory quantity, but item was created');
    }
  }
  results.push({ originalId: item.id, squareId: data.catalog_object?.id, variationId: variationId,
    sku: data.catalog_object?.item_data?.variations?.[0]?.item_variation_data?.sku || sku,
    category: categoryName, quantity: quantity, success: true, action: 'created' });
  \<close>
\<close>

definition createdResult :: "env \<Rightarrow> artwork \<Rightarrow> string \<Rightarrow> reply_body \<Rightarrow> request list \<Rightarrow> upload_result \<times> request list" where
  "createdResult e item sku0 d log3 =
     (let vid = rb_variation_id d;
          qty = quantityOrOne (quantity item);
          log4 = (if truthy vid \<and> quantityPositive qty
                  then snd (setInventoryQuantity e (the vid) qty log3)
                  else log3)
      in (\<lparr>originalId = item_id item,
           res_squareId = rb_catalog_object_id d,
           res_variationId = vid,
           res_sku = (if truthy (rb_variation_sku d) then the (rb_variation_sku d) else sku0),
           res_category = artistName item @ '' - '' @ artType item,
           res_quantity = qty,
           success = True, res_error = None,
           action = ''created''\<rparr>, log4))"

definition processCreate :: "env \<Rightarrow> artwork \<Rightarrow> request list \<Rightarrow> (string + upload_result) \<times> request list" where
  "processCreate e item log =
     (let categoryName = artistName item @ '' - '' @ artType item;
          reportingCategoryName = artistName item;
          sku0 = makeSku (artistName item) (now_at e (length log))
      in case findOrCreateCategory e categoryName (''#cat-'' @ item_id item) log of
           (Inl msg, log1) \<Rightarrow> (Inl msg, log1)
         | (Inr categoryId, log1) \<Rightarrow>
             (case findOrCreateCategory e reportingCategoryName (''#repcat-'' @ item_id item) log1 of
                (Inl msg, log2) \<Rightarrow> (Inl msg, log2)
              | (Inr reportingCategoryId, log2) \<Rightarrow>
                  (case fetch e (UpsertItem (createObjectOf item (encodeDescription item) sku0
                                   categoryId reportingCategoryId)) log2 of
                     (Throws msg, log3) \<Rightarrow> (Inl msg, log3)
                   | (Reply d, log3) \<Rightarrow>
                       if \<not> rb_ok d then
                         (Inl (case rb_error_detail d of
                                 None \<Rightarrow> ''Failed to upload to Square''
                               | Some detail \<Rightarrow>
                                   if detail = [] then ''Failed to upload to Square'' else detail),
                          log3)
                       else (case createdResult e item sku0 d log3 of
                               (r, log4) \<Rightarrow> (Inr r, log4)))))"

definition processItem :: "env \<Rightarrow> artwork \<Rightarrow> request list \<Rightarrow> (string + upload_result) \<times> request list" where
  "processItem e item log =
     (if truthy (squareId item) then processUpdate e item log else processCreate e item log)"

subsection \<open>The batch\<close>

text \<open>
  \<^verbatim>\<open>for (const item of items) { ... }\<close> inside the handler's \<^verbatim>\<open>try\<close>: an exception
  leaves the loop and is answered by the \<^verbatim>\<open>catch\<close> with status 500 and
  \<^verbatim>\<open>{ success: false, error: error.message }\<close>; a loop that ends is answered with status
  200 and \<^verbatim>\<open>{ success: true, results: results }\<close>.
\<close>

fun processItems ::
  "env \<Rightarrow> artwork list \<Rightarrow> upload_result list \<Rightarrow> request list
    \<Rightarrow> (string + upload_result list) \<times> request list" where
  "processItems e [] results log = (Inr results, log)"
| "processItems e (item # items) results log =
     (case processItem e item log of
        (Inl msg, log1) \<Rightarrow> (Inl msg, log1)
      | (Inr r, log1) \<Rightarrow> processItems e items (results @ [r]) log1)"

datatype upload_response =
  MethodNotAllowed
| ServerError string
| Uploaded "upload_result list"

definition handler :: "string \<Rightarrow> bool \<Rightarrow> env \<Rightarrow> artwork list \<Rightarrow> upload_response \<times> request list" where
  "handler method configured e items =
     (if method \<noteq> ''POST'' then (MethodNotAllowed, [])
      else if \<not> configured then (ServerError ''Square credentials not configured'', [])
      else (case processItems e items [] [] of
              (Inl msg, log) \<Rightarrow> (ServerError msg, log)
            | (Inr results, log) \<Rightarrow> (Uploaded results, log)))"


section \<open>The handler with category caches\<close>

text \<open>
  The second handler of \<^verbatim>\<open>api/square-upload.js\<close> (\<^verbatim>\<open>module.exports = async (req, res)\<close>)
  creates items only and keeps two caches for the length of one request:
  \<^verbatim>\<open>
  const categoryCache = {};
  const reportingCategoryCache = {};
  \<close>
  A cache is a function from names to optional ids; \<^verbatim>\<open>cache[name] = id\<close> with an
  absent id stores \<open>None\<close>, which reads like a missing entry. (Names that are members of
  \<^verbatim>\<open>Object.prototype\<close> are not told apart here.)
\<close>

type_synonym cache = "string \<Rightarrow> string option"

text \<open>
  \<^verbatim>\<open>
  const sanitizeForId = (str) => {
    return str
      .normalize('NFD')
      .replace(/[\u0300-\u036f]/g, '') // Remove accents
      .replace(/[^a-zA-Z0-9\s-]/g, '') // Remove special chars except spaces and hyphens
      .replace(/\s+/g, '-') // Replace spaces with hyphens
      .replace(/-+/g, '-') // Collapse multiple hyphens
      .substring(0, 50); // Limit length
  };
  \<close>
  On ASCII text the first two steps change nothing.
\<close>

definition is_alnum :: "char \<Rightarrow> bool" where
  "is_alnum c = (c \<in> set (lower_letters @ upper_letters @ ''0123456789''))"

function squeeze :: "(char \<Rightarrow> bool) \<Rightarrow> string \<Rightarrow> string" where
  "squeeze P [] = []"
| "squeeze P (c # cs) =
     (if P c then CHR ''-'' # squeeze P (dropWhile P cs) else c # squeeze P cs)"
  by pat_completeness auto
termination
  by (relation "measure (\<lambda>(P, s). length s)")
    (auto simp: less_Suc_eq_le length_dropWhile_le)

definition sanitizeForId :: "string \<Rightarrow> string" where
  "sanitizeForId str =
     take 50 (squeeze (\<lambda>c. c = CHR ''-'')
       (squeeze is_space (filter (\<lambda>c. is_alnum c \<or> is_space c \<or> c = CHR ''-'') str)))"

text \<open>
  \<^verbatim>\<open>
  const getOrCreateReportingCategory = async (artistName) => {
    if (reportingCategoryCache[artistName]) {
      return reportingCategoryCache[artistName];
    }
    ... search ...
    if (searchData.objects && searchData.objects.length > 0) {
      reportingCategoryCache[artistName] = searchData.objects[0].id;
      return searchData.objects[0].id;
    }
    ... create ...
    if (!categoryResponse.ok) {
      console.error('Reporting category creation error:', categoryData);
      return null;
    }
    const categoryId = categoryData.catalog_object?.id;
    if (categoryId) {
      reportingCategoryCache[artistName] = categoryId;
    }
    return categoryId;
  };
  \<close>
  The state of a run is the cache and the requests made.
\<close>

definition getOrCreateReportingCategory ::
  "env \<Rightarrow> string \<Rightarrow> cache \<times> request list \<Rightarrow> (string + string option) \<times> cache \<times> request list" where
  "getOrCreateReportingCategory e artistName0 st =
     (case st of (reportingCategoryCache, log) \<Rightarrow>
        if truthy (reportingCategoryCache artistName0)
        then (Inr (reportingCategoryCache artistName0), reportingCategoryCache, log)
        else (case fetch e (SearchCategory artistName0) log of
                (Throws msg, log1) \<Rightarrow> (Inl msg, reportingCategoryCache, log1)
              | (Reply searchData, log1) \<Rightarrow>
                  if rb_objects searchData \<noteq> [] then
                    (Inr (first_object_id searchData),
                     reportingCategoryCache(artistName0 := first_object_id searchData), log1)
                  else
                    (case fetch e (CreateCategory
                             (''#reporting-category-'' @ sanitizeForId artistName0) artistName0) log1 of
                       (Throws msg, log2) \<Rightarrow> (Inl msg, reportingCategoryCache, log2)
                     | (Reply categoryData, log2) \<Rightarrow>
                         if \<not> rb_ok categoryData then (Inr None, reportingCategoryCache, log2)
                         else
                           (Inr (rb_catalog_object_id categoryData),
                            (if truthy (rb_catalog_object_id categoryData)
                             then reportingCategoryCache(artistName0 := rb_catalog_object_id categoryData)
                             else reportingCategoryCache),
                            log2))))"

text \<open>
  Step 2 of the loop, for the category \<open>"Artist - Type"\<close>:
  \<^verbatim>\<open>
  let categoryId = categoryCache[categoryName];
  if (!categoryId) {
    ... search ...
    if (searchData.objects && searchData.objects.length > 0) {
      categoryId = searchData.objects[0].id;
    } else {
      ... create, with the object id `#category-${sanitizeForId(categoryName)}-${item.id}` ...
      if (!categoryResponse.ok) {
        console.error('Category creation error:', categoryData);
        throw new Error(categoryData.errors?.[0]?.detail || 'Failed to create category');
      }
      categoryId = categoryData.catalog_object?.id;
    }
    categoryCache[categoryName] = categoryId;
  }
  \<close>
\<close>

definition getOrCreateCategory ::
  "env \<Rightarrow> string \<Rightarrow> string \<Rightarrow> cache \<times> request list \<Rightarrow> (string + string option) \<times> cache \<times> request list" where
  "getOrCreateCategory e categoryName itemId st =
     (case st of (categoryCache, log) \<Rightarrow>
        if truthy (categoryCache categoryName)
        then (Inr (categoryCache categoryName), categoryCache, log)
        else (case fetch e (SearchCategory categoryName) log of
                (Throws msg, log1) \<Rightarrow> (Inl msg, categoryCache, log1)
              | (Reply searchData, log1) \<Rightarrow>
                  if rb_objects searchData \<noteq> [] then
                    (Inr (first_object_id searchData),
                     categoryCache(categoryName := first_object_id searchData), log1)
                  else
                    (case fetch e (CreateCategory
                             (''#category-'' @ sanitizeForId categoryName @ ''-'' @ itemId)
                             categoryName) log1 of
                       (Throws msg, log2) \<Rightarrow> (Inl msg, categoryCache, log2)
                     | (Reply categoryData, log2) \<Rightarrow>
                         if \<not> rb_ok categoryData then
                           (Inl (case rb_error_detail categoryData of
                                   None \<Rightarrow> ''Failed to create category''
                                 | Some detail \<Rightarrow>
                                     if detail = [] then ''Failed to create category'' else detail),
                            categoryCache, log2)
                         else
                           (Inr (rb_catalog_object_id categoryData),
                            categoryCache(categoryName := rb_catalog_object_id categoryData),
                            log2))))"

section \<open>The portal: archive and restore\<close>








text \<open>Telling the inventory call from the other calls of a run.\<close>

fun is_physical_count :: "request \<Rightarrow> bool" where
  "is_physical_count (PhysicalCount v q) = True"
| "is_physical_count other = False"

fun is_create_category :: "request \<Rightarrow> bool" where
  "is_create_category (CreateCategory tempId name) = True"
| "is_create_category other = False"


section \<open>Notions for the codec's properties\<close>

text \<open>
  \<open>ltrim\<close> and \<open>rtrim\<close> are the two halves of \<^const>\<open>trim\<close>. \<open>ci_contains lab s\<close>: the
  label occurs somewhere in \<open>s\<close>, in any letter case, which is when the decoder's regular
  expression for that label matches. \<open>mentions_label s\<close>: one of the three labels occurs
  in \<open>s\<close>. \<open>nl_free lab\<close>: the label is not empty and matches no line feed.
\<close>

definition ltrim :: "string \<Rightarrow> string" where
  "ltrim s = dropWhile is_space s"

definition rtrim :: "string \<Rightarrow> string" where
  "rtrim s = rev (dropWhile is_space (rev s))"

fun ci_contains :: "string \<Rightarrow> string \<Rightarrow> bool" where
  "ci_contains lab [] = ci_prefix lab []"
| "ci_contains lab (c # cs) = (ci_prefix lab (c # cs) \<or> ci_contains lab cs)"

definition mentions_label :: "string \<Rightarrow> bool" where
  "mentions_label s =
     (ci_contains ''Medium:'' s \<or> ci_contains ''Dimensions:'' s \<or> ci_contains ''Discounts:'' s)"

definition nl_free :: "string \<Rightarrow> bool" where
  "nl_free lab = (lab \<noteq> [] \<and> (\<forall>l \<in> set lab. to_upper l \<noteq> to_upper nl))"

section \<open>Example data\<close>

text \<open>Concrete records for the examples below.\<close>

definition emptyArtwork :: artwork where
  "emptyArtwork =
     \<lparr>item_id = [], squareId = None, variationId = None, version = None,
      variationVersion = None, title = [], artistName = [], category = [], artType = [],
      medium = [], description = [], dimensions = [], height = [], width = [], price = [],
      sku = [], quantity = QAbsent, discounts = []\<rparr>"




text \<open>
  A provider that answers the calls of a run with the listed replies, in order, and
  lets every later call throw; the clock stands still.
\<close>

definition scripted :: "response list \<Rightarrow> env" where
  "scripted rs =
     \<lparr>reply_at = (\<lambda>k. if k < length rs then rs ! k else Throws ''fetch failed''),
      now_at = (\<lambda>k. 1730512345678)\<rparr>"

definition emptyBody :: reply_body where
  "emptyBody =
     \<lparr>rb_ok = True, rb_error_detail = None, rb_objects = [], rb_catalog_object_id = None,
      rb_variation_id = None, rb_variation_sku = None\<rparr>"

definition foundBody :: "string \<Rightarrow> response" where
  "foundBody cid = Reply (emptyBody\<lparr>rb_objects := [Some cid]\<rparr>)"

definition createdBody :: "string \<Rightarrow> string \<Rightarrow> response" where
  "createdBody oid vid =
     Reply (emptyBody\<lparr>rb_catalog_object_id := Some oid, rb_variation_id := Some vid\<rparr>)"

definition categoryBody :: "string \<Rightarrow> response" where
  "categoryBody cid = Reply (emptyBody\<lparr>rb_catalog_object_id := Some cid\<rparr>)"

definition failedBody :: "string \<Rightarrow> response" where
  "failedBody detail = Reply (emptyBody\<lparr>rb_ok := False, rb_error_detail := Some detail\<rparr>)"

definition newArtwork :: "string \<Rightarrow> artwork" where
  "newArtwork lid =
     emptyArtwork\<lparr>item_id := lid, title := ''Sunset'', artistName := ''Jane Doe'',
       artType := ''Painting'', medium := ''Oil'', price := ''120'', quantity := QNumber 2\<rparr>"

definition exampleRecord :: artwork where
  "exampleRecord = emptyArtwork\<lparr>description := ''A quiet landscape.'', medium := ''Oil'',
      dimensions := ''5 x 7 in'', discounts := ''10% off''\<rparr>"

section \<open>Properties\<close>

declare show_nat.simps [simp del]

text \<open>The equations that evaluate a run of the writer on concrete data.\<close>

lemmas run_defs =
  handler_def processItem_def processUpdate_def processCreate_def findOrCreateCategory_def
  fetch_def createdResult_def setInventoryQuantity_def first_object_id_def or_else_def
  scripted_def emptyBody_def foundBody_def createdBody_def failedBody_def categoryBody_def
  newArtwork_def
  emptyArtwork_def Let_def

subsection \<open>Searching in strings\<close>




lemma lastIndexFrom_None: "(lastIndexFrom p s n = None) = (\<forall>i\<le>n. \<not> occurs_at p s i)"
  by (induction n) (auto simp: le_Suc_eq)




subsection \<open>Category split\<close>




subsection \<open>The artist filter\<close>




subsection \<open>Inventory counts\<close>














subsection \<open>The create path\<close>

lemma fetch_eq: "fetch e req log = (reply_at e (length log), log @ [req])"
  by (simp add: fetch_def)

lemma findOrCreateCategory_log:
  "findOrCreateCategory e n t log = (r, log1) \<Longrightarrow>
     log1 = log @ [SearchCategory n] \<or> log1 = log @ [SearchCategory n, CreateCategory t n]"
  by (auto simp: findOrCreateCategory_def fetch_def split: response.splits if_splits)

lemma quantityString_small:
  "quantityString (QNumber 1) = ''1''" "quantityString (QNumber 2) = ''2''"
  by (simp_all add: show_int_def show_nat.simps digit_char_def)

lemma setInventoryQuantity_log:
  "snd (setInventoryQuantity e v q log) = log @ [PhysicalCount v (quantityString q)]"
  by (simp add: setInventoryQuantity_def fetch_def split: response.splits)

lemma createdResult_success: "success (fst (createdResult e item sku0 d log3))"
  by (simp add: createdResult_def Let_def)

lemma createdResult_env: "createdResult e' item sku0 d log3 = createdResult e item sku0 d log3"
  by (simp add: createdResult_def Let_def setInventoryQuantity_log)

lemma createdResult_log:
  "snd (createdResult e item sku0 d log3) =
     (if truthy (rb_variation_id d) \<and> quantityPositive (quantityOrOne (quantity item))
      then log3 @ [PhysicalCount (the (rb_variation_id d))
                     (quantityString (quantityOrOne (quantity item)))]
      else log3)"
  by (simp add: createdResult_def Let_def setInventoryQuantity_log)

lemma processCreate_cases:
  assumes "processCreate e item log = (out, log1)"
  obtains (failed) msg where "out = Inl msg" "log1 \<noteq> []" "\<not> is_physical_count (last log1)"
  | (created) d log3 obj where "rb_ok d" "log3 \<noteq> []" "last log3 = UpsertItem obj"
      "length log < length log3"
      "reply_at e (length log3 - 1) = Reply d"
      "out = Inr (fst (createdResult e item (makeSku (artistName item) (now_at e (length log))) d log3))"
      "log1 = snd (createdResult e item (makeSku (artistName item) (now_at e (length log))) d log3)"
      "\<exists>categoryId reportingCategoryId.
         obj = createObjectOf item (encodeDescription item)
                 (makeSku (artistName item) (now_at e (length log))) categoryId reportingCategoryId"
proof -
  let ?cat = "artistName item @ '' - '' @ artType item"
  let ?sku = "makeSku (artistName item) (now_at e (length log))"
  obtain r1 l1 where s1: "findOrCreateCategory e ?cat (''#cat-'' @ item_id item) log = (r1, l1)"
    by (cases "findOrCreateCategory e ?cat (''#cat-'' @ item_id item) log")
  from findOrCreateCategory_log [OF s1]
  have l1: "l1 \<noteq> []" "\<not> is_physical_count (last l1)" "length log < length l1" by auto
  show ?thesis
  proof (cases r1)
    case (Inl msg)
    with assms s1 have "out = Inl msg" "log1 = l1"
      by (simp_all add: processCreate_def Let_def)
    with l1 show ?thesis by (intro failed) simp_all
  next
    case (Inr categoryId)
    obtain r2 l2 where s2: "findOrCreateCategory e (artistName item) (''#repcat-'' @ item_id item) l1 = (r2, l2)"
      by (cases "findOrCreateCategory e (artistName item) (''#repcat-'' @ item_id item) l1")
    from findOrCreateCategory_log [OF s2]
    have l2: "l2 \<noteq> []" "\<not> is_physical_count (last l2)" "length l1 < length l2" by auto
    show ?thesis
    proof (cases r2)
      case (Inl msg)
      with assms s1 s2 Inr have "out = Inl msg" "log1 = l2"
        by (simp_all add: processCreate_def Let_def)
      with l2 show ?thesis by (intro failed) simp_all
    next
      case r2: (Inr reportingCategoryId)
      let ?obj = "createObjectOf item (encodeDescription item) ?sku categoryId reportingCategoryId"
      let ?l3 = "l2 @ [UpsertItem ?obj]"
      show ?thesis
      proof (cases "reply_at e (length l2)")
        case (Throws msg)
        with assms s1 s2 Inr r2 have "out = Inl msg" "log1 = ?l3"
          by (simp_all add: processCreate_def Let_def fetch_def)
        then show ?thesis by (intro failed) simp_all
      next
        case (Reply d)
        show ?thesis
        proof (cases "rb_ok d")
          case False
          with assms s1 s2 Inr r2 Reply have "\<exists>msg. out = Inl msg" "log1 = ?l3"
            by (auto simp add: processCreate_def Let_def fetch_def)
          then obtain msg where "out = Inl msg" "log1 = ?l3" by blast
          then show ?thesis by (intro failed) simp_all
        next
          case True
          with assms s1 s2 Inr r2 Reply
          have "out = Inr (fst (createdResult e item ?sku d ?l3))"
            "log1 = snd (createdResult e item ?sku d ?l3)"
            by (simp_all add: processCreate_def Let_def fetch_def split: prod.splits)
          moreover have "length log < length ?l3" using l1 l2 by simp
          moreover have "reply_at e (length ?l3 - 1) = Reply d" using Reply by simp
          moreover have "\<exists>c rc. ?obj = createObjectOf item (encodeDescription item) ?sku c rc"
            by blast
          ultimately show ?thesis using True
            by (intro created [of d ?l3 ?obj]) simp_all
        qed
      qed
    qed
  qed
qed


lemma findOrCreateCategory_cong:
  assumes "findOrCreateCategory e n t log = (r, l1)"
    and "\<forall>k. length log \<le> k \<and> k < length l1 \<longrightarrow> reply_at e' k = reply_at e k"
  shows "findOrCreateCategory e' n t log = (r, l1)"
proof -
  from findOrCreateCategory_log [OF assms(1)]
  consider "l1 = log @ [SearchCategory n]" | "l1 = log @ [SearchCategory n, CreateCategory t n]"
    by blast
  then show ?thesis
  proof cases
    case 1
    with assms(2) have "reply_at e' (length log) = reply_at e (length log)" by simp
    with assms(1) 1 show ?thesis
      by (auto simp: findOrCreateCategory_def fetch_def split: response.splits if_splits)
  next
    case 2
    with assms(2) have "reply_at e' (length log) = reply_at e (length log)"
      "reply_at e' (Suc (length log)) = reply_at e (Suc (length log))" by simp_all
    with assms(1) 2 show ?thesis
      by (auto simp: findOrCreateCategory_def fetch_def split: response.splits if_splits)
  qed
qed

lemma processCreate_cong:
  assumes run: "processCreate e item log = (out, log1)"
    and now: "now_at e' = now_at e"
    and same: "\<forall>k. length log \<le> k \<and> k < length log1
                  \<and> \<not> (Suc k = length log1 \<and> is_physical_count (last log1))
                \<longrightarrow> reply_at e' k = reply_at e k"
  shows "processCreate e' item log = (out, log1)"
proof -
  let ?cat = "artistName item @ '' - '' @ artType item"
  let ?sku = "makeSku (artistName item) (now_at e (length log))"
  obtain r1 l1 where s1: "findOrCreateCategory e ?cat (''#cat-'' @ item_id item) log = (r1, l1)"
    by (cases "findOrCreateCategory e ?cat (''#cat-'' @ item_id item) log")
  from findOrCreateCategory_log [OF s1]
  have l1: "l1 \<noteq> []" "\<not> is_physical_count (last l1)" "length log < length l1" by auto
  show ?thesis
  proof (cases r1)
    case (Inl msg)
    with run s1 have o: "out = Inl msg" "log1 = l1"
      by (simp_all add: processCreate_def Let_def)
    with same l1 have "\<forall>k. length log \<le> k \<and> k < length l1 \<longrightarrow> reply_at e' k = reply_at e k"
      by simp
    from findOrCreateCategory_cong [OF s1 this] Inl o show ?thesis
      by (simp add: processCreate_def Let_def)
  next
    case (Inr categoryId)
    obtain r2 l2 where s2: "findOrCreateCategory e (artistName item) (''#repcat-'' @ item_id item) l1 = (r2, l2)"
      by (cases "findOrCreateCategory e (artistName item) (''#repcat-'' @ item_id item) l1")
    from findOrCreateCategory_log [OF s2]
    have l2: "l2 \<noteq> []" "\<not> is_physical_count (last l2)" "length l1 < length l2" by auto
    show ?thesis
    proof (cases r2)
      case (Inl msg)
      with run s1 s2 Inr have o: "out = Inl msg" "log1 = l2"
        by (simp_all add: processCreate_def Let_def)
      with same l1 l2 have a: "\<forall>k. length log \<le> k \<and> k < length l1 \<longrightarrow> reply_at e' k = reply_at e k"
        and b: "\<forall>k. length l1 \<le> k \<and> k < length l2 \<longrightarrow> reply_at e' k = reply_at e k"
        by simp_all
      from findOrCreateCategory_cong [OF s1 a] findOrCreateCategory_cong [OF s2 b] Inr Inl o
      show ?thesis
        by (simp add: processCreate_def Let_def)
    next
      case r2: (Inr reportingCategoryId)
      let ?obj = "createObjectOf item (encodeDescription item) ?sku categoryId reportingCategoryId"
      let ?l3 = "l2 @ [UpsertItem ?obj]"
      have "log1 = ?l3 \<or> (\<exists>d. log1 = snd (createdResult e item ?sku d ?l3))"
        using run s1 s2 Inr r2
        by (auto simp add: processCreate_def Let_def fetch_def case_prod_beta
            split: response.splits if_splits)
      then have len: "length log1 \<ge> length ?l3"
        "length log1 = length ?l3 \<longrightarrow> \<not> is_physical_count (last log1)"
        by (auto simp: createdResult_log split: if_splits)
      with same l1 l2 have a: "\<forall>k. length log \<le> k \<and> k < length l1 \<longrightarrow> reply_at e' k = reply_at e k"
        and b: "\<forall>k. length l1 \<le> k \<and> k < length l2 \<longrightarrow> reply_at e' k = reply_at e k"
        and c: "reply_at e' (length l2) = reply_at e (length l2)"
        by auto
      from findOrCreateCategory_cong [OF s1 a] findOrCreateCategory_cong [OF s2 b] Inr r2 c run s1 s2 now
      show ?thesis
        by (auto simp add: processCreate_def Let_def fetch_def createdResult_env [of e' _ _ _ _ e]
            case_prod_beta split: response.splits if_splits)
    qed
  qed
qed

text \<open>
  C8. On the create path (a record without provider item id), whenever the run of a
  record ends with the inventory physical-count call (which is made only after the item
  create has succeeded), the record's entry reports \<open>success\<close>: whatever that call comes
  back with (a response that is not ok, or an exception), the entry and the requests
  made are the same, so the inventory failure is never surfaced as a record failure.
\<close>

theorem create_success_despite_inventory_failure:
  assumes "\<not> truthy (squareId item)"
    and "processItem e item log = (out, log1)"
    and "log1 \<noteq> []" and "last log1 = PhysicalCount v q"
  shows "(\<exists>r. out = Inr r \<and> success r)
       \<and> (\<forall>x. processItem (e\<lparr>reply_at := (reply_at e)(length log1 - 1 := x)\<rparr>) item log = (out, log1))"
proof -
  from assms have run: "processCreate e item log = (out, log1)"
    by (simp add: processItem_def)
  from run have 1: "\<exists>r. out = Inr r \<and> success r"
  proof (cases rule: processCreate_cases)
    case (failed msg)
    with assms show ?thesis by simp
  next
    case (created d log3 obj)
    then show ?thesis by (simp add: createdResult_success)
  qed
  have 2: "processItem (e\<lparr>reply_at := (reply_at e)(length log1 - 1 := x)\<rparr>) item log = (out, log1)" for x
  proof -
    have "processCreate (e\<lparr>reply_at := (reply_at e)(length log1 - 1 := x)\<rparr>) item log = (out, log1)"
      using run
    proof (rule processCreate_cong)
      show "now_at (e\<lparr>reply_at := (reply_at e)(length log1 - 1 := x)\<rparr>) = now_at e" by simp
      show "\<forall>k. length log \<le> k \<and> k < length log1
                  \<and> \<not> (Suc k = length log1 \<and> is_physical_count (last log1))
                \<longrightarrow> reply_at (e\<lparr>reply_at := (reply_at e)(length log1 - 1 := x)\<rparr>) k = reply_at e k"
        using assms(3,4) by auto
    qed
    with assms(1) show ?thesis by (simp add: processItem_def)
  qed
  from 1 2 show ?thesis by blast
qed

theorem create_success_despite_inventory_failure_witness:
  "reply_at (scripted [foundBody ''CAT1'', foundBody ''REP1'', createdBody ''ITEM9'' ''VAR9'',
                       failedBody ''Inventory down'']) 3 = failedBody ''Inventory down''
   \<and> (case processItem (scripted [foundBody ''CAT1'', foundBody ''REP1'', createdBody ''ITEM9'' ''VAR9'',
                                  failedBody ''Inventory down'']) (newArtwork ''17'') [] of
         (Inr r, log1) \<Rightarrow> success r \<and> last log1 = PhysicalCount ''VAR9'' ''2''
       | (Inl msg, log1) \<Rightarrow> False)
   \<and> processItem ((scripted [foundBody ''CAT1'', foundBody ''REP1'', createdBody ''ITEM9'' ''VAR9'',
                              failedBody ''Inventory down''])
                    \<lparr>reply_at := (reply_at (scripted [foundBody ''CAT1'', foundBody ''REP1'',
                          createdBody ''ITEM9'' ''VAR9'', failedBody ''Inventory down'']))
                        (3 := Throws ''timeout'')\<rparr>) (newArtwork ''17'') []
     = processItem (scripted [foundBody ''CAT1'', foundBody ''REP1'', createdBody ''ITEM9'' ''VAR9'',
                              failedBody ''Inventory down'']) (newArtwork ''17'') []"
proof -
  let ?e = "scripted [foundBody ''CAT1'', foundBody ''REP1'', createdBody ''ITEM9'' ''VAR9'',
                      failedBody ''Inventory down'']"
  define out where "out = fst (processItem ?e (newArtwork ''17'') [])"
  define log1 where "log1 = snd (processItem ?e (newArtwork ''17'') [])"
  have run: "processItem ?e (newArtwork ''17'') [] = (out, log1)"
    by (simp add: out_def log1_def)
  have sq: "\<not> truthy (squareId (newArtwork ''17''))"
    by (simp add: newArtwork_def emptyArtwork_def)
  have l: "log1 \<noteq> []" "last log1 = PhysicalCount ''VAR9'' ''2''" "length log1 - 1 = 3"
    by (simp_all add: log1_def run_defs quantityString_small del: quantityString.simps)
  have f: "reply_at ?e 3 = failedBody ''Inventory down''"
    by (simp add: scripted_def)
  from create_success_despite_inventory_failure [OF sq run l(1,2)] l(3)
  have "\<exists>r. out = Inr r \<and> success r"
    and "processItem (?e\<lparr>reply_at := (reply_at ?e)(3 := Throws ''timeout'')\<rparr>) (newArtwork ''17'') []
          = (out, log1)"
    by auto
  with run l(2) f show ?thesis by auto
qed

text \<open>
  C10 as stated does not hold for a quantity that is submitted as text, the form in
  which the portal's form state carries it: the text \<open>"0"\<close> is truthy and is kept by
  \<^verbatim>\<open>item.quantity || 1\<close>, \<^verbatim>\<open>"0" > 0\<close> is false, so no physical count is issued, and the
  entry reports the quantity \<open>"0"\<close>.
\<close>

theorem create_keeps_text_zero_counterexample:
  "(case processItem (scripted [foundBody ''CAT1'', foundBody ''REP1'',
                                createdBody ''ITEM9'' ''VAR9'', Reply emptyBody])
            ((newArtwork ''17'')\<lparr>quantity := QString ''0''\<rparr>) [] of
      (Inr r, log1) \<Rightarrow>
        success r \<and> action r = ''created'' \<and> res_variationId r = Some ''VAR9''
        \<and> res_quantity r = QString ''0'' \<and> res_quantity r \<noteq> QNumber 1
        \<and> map is_physical_count log1 = [False, False, False]
    | (Inl msg, log1) \<Rightarrow> False)"
  by (simp add: run_defs text_positive_def trim_def is_space_def nondecimal_positive_def
      to_lower_def upper_letters_def lower_letters_def startsWith_def decimal_positive_def
      is_digit_def exponent_of_def above_underflow_def decimal_value_def digit_val_def)

text \<open>
  C10, amended. On the create path the quantity is defaulted with
  \<^verbatim>\<open>item.quantity || 1\<close>. For a record submitted with the number 0, without quantity
  (absent or \<^verbatim>\<open>null\<close>) or with the empty text, every entry the create path returns
  reports the number 1, and when the provider's reply carries the id of the new
  variation, the last call of the record is the physical count of 1 against that
  variation. A quantity submitted as a text that is not empty is reported as that
  text; for ASCII text the physical count, of that text, is issued when the reply
  carries the id of the new variation and the text denotes a number greater than 0,
  and no physical count is issued when it does not denote one.
\<close>

theorem create_defaults_quantity_to_one:
  assumes "\<not> truthy (squareId item)"
    and "processItem e item log = (Inr r, log1)"
  shows "(quantity item = QAbsent \<or> quantity item = QNull \<or> quantity item = QNumber 0
            \<or> quantity item = QString [] \<longrightarrow>
          res_quantity r = QNumber 1
          \<and> (truthy (res_variationId r) \<longrightarrow>
               log1 \<noteq> [] \<and> last log1 = PhysicalCount (the (res_variationId r)) ''1''))
     \<and> (\<forall>s. quantity item = QString s \<and> s \<noteq> [] \<longrightarrow>
          res_quantity r = QString s
          \<and> (ascii s \<and> truthy (res_variationId r) \<and> text_positive s \<longrightarrow>
               log1 \<noteq> [] \<and> last log1 = PhysicalCount (the (res_variationId r)) s)
          \<and> (ascii s \<and> \<not> text_positive s \<longrightarrow>
               log1 \<noteq> [] \<and> \<not> is_physical_count (last log1)))"
proof -
  from assms have run: "processCreate e item log = (Inr r, log1)"
    by (simp add: processItem_def)
  then show ?thesis
  proof (cases rule: processCreate_cases)
    case (failed msg)
    then show ?thesis by simp
  next
    case (created d log3 obj)
    let ?sku = "makeSku (artistName item) (now_at e (length log))"
    from created have r: "r = fst (createdResult e item ?sku d log3)"
      and l: "log1 = snd (createdResult e item ?sku d log3)" by simp_all
    have q: "res_quantity r = quantityOrOne (quantity item)"
      and v: "res_variationId r = rb_variation_id d"
      by (simp_all add: r createdResult_def Let_def)
    have u: "\<not> is_physical_count (last log3)" using created(3) by simp
    show ?thesis
    proof (intro conjI impI allI)
      assume "quantity item = QAbsent \<or> quantity item = QNull \<or> quantity item = QNumber 0
            \<or> quantity item = QString []"
      then have o: "quantityOrOne (quantity item) = QNumber 1" by auto
      with q show "res_quantity r = QNumber 1" by simp
      assume "truthy (res_variationId r)"
      with v o l show "log1 \<noteq> []" "last log1 = PhysicalCount (the (res_variationId r)) ''1''"
        by (simp_all add: createdResult_log quantityString_small del: quantityString.simps)
    next
      fix s
      assume "quantity item = QString s \<and> s \<noteq> []"
      then have o: "quantityOrOne (quantity item) = QString s" by auto
      with q show "res_quantity r = QString s" by simp
      {
        assume "ascii s \<and> truthy (res_variationId r) \<and> text_positive s"
        with v o l show "log1 \<noteq> []" "last log1 = PhysicalCount (the (res_variationId r)) s"
          by (simp_all add: createdResult_log)
      }
      assume "ascii s \<and> \<not> text_positive s"
      with o l u created(2) show "log1 \<noteq> []" "\<not> is_physical_count (last log1)"
        by (simp_all add: createdResult_log)
    qed
  qed
qed

theorem create_defaults_quantity_to_one_witness:
  "(case processItem (scripted [foundBody ''CAT1'', foundBody ''REP1'',
                                createdBody ''ITEM9'' ''VAR9'', Reply emptyBody])
            ((newArtwork ''17'')\<lparr>quantity := QNumber 0\<rparr>) [] of
      (Inr r, log1) \<Rightarrow> res_quantity r = QNumber 1 \<and> res_variationId r = Some ''VAR9''
                          \<and> last log1 = PhysicalCount ''VAR9'' ''1''
    | (Inl msg, log1) \<Rightarrow> False)
   \<and> ascii ''3'' \<and> text_positive ''3''
   \<and> (case processItem (scripted [foundBody ''CAT1'', foundBody ''REP1'',
                                  createdBody ''ITEM9'' ''VAR9'', Reply emptyBody])
            ((newArtwork ''17'')\<lparr>quantity := QString ''3''\<rparr>) [] of
      (Inr r, log1) \<Rightarrow> res_quantity r = QString ''3'' \<and> res_variationId r = Some ''VAR9''
                          \<and> last log1 = PhysicalCount ''VAR9'' ''3''
    | (Inl msg, log1) \<Rightarrow> False)"
proof -
  let ?e = "scripted [foundBody ''CAT1'', foundBody ''REP1'', createdBody ''ITEM9'' ''VAR9'', Reply emptyBody]"
  let ?item = "(newArtwork ''17'')\<lparr>quantity := QNumber 0\<rparr>"
  let ?item3 = "(newArtwork ''17'')\<lparr>quantity := QString ''3''\<rparr>"
  have p: "text_positive ''3''"
    by (simp add: text_positive_def trim_def is_space_def nondecimal_positive_def
      startsWith_def decimal_positive_def is_digit_def exponent_of_def above_underflow_def
      decimal_value_def digit_val_def)
  define r where "r = (case fst (processItem ?e ?item []) of Inr r \<Rightarrow> r)"
  define log1 where "log1 = snd (processItem ?e ?item [])"
  have run: "processItem ?e ?item [] = (Inr r, log1)"
    by (simp add: r_def log1_def run_defs del: quantityString.simps)
  define r3 where "r3 = (case fst (processItem ?e ?item3 []) of Inr r \<Rightarrow> r)"
  define log3 where "log3 = snd (processItem ?e ?item3 [])"
  have run3: "processItem ?e ?item3 [] = (Inr r3, log3)"
    by (simp add: r3_def log3_def run_defs p)
  have sq: "\<not> truthy (squareId ?item)" "\<not> truthy (squareId ?item3)"
    by (simp_all add: newArtwork_def emptyArtwork_def)
  have v: "res_variationId r = Some ''VAR9''"
    by (simp add: r_def run_defs del: quantityString.simps)
  have v3: "res_variationId r3 = Some ''VAR9''"
    by (simp add: r3_def run_defs p)
  from create_defaults_quantity_to_one [OF sq(1) run] v
  have "res_quantity r = QNumber 1" "last log1 = PhysicalCount ''VAR9'' ''1''"
    by simp_all
  moreover have a: "ascii ''3''"
    by (simp add: ascii_def is_ascii_def)
  moreover from create_defaults_quantity_to_one [OF sq(2) run3] v3 p a
  have "res_quantity r3 = QString ''3''" "last log3 = PhysicalCount ''VAR9'' ''3''"
    by simp_all
  ultimately show ?thesis using run run3 v v3 p by simp
qed

subsection \<open>Failures in a batch\<close>

text \<open>
  C1, evaluated at a batch of three new records of which the second fails at the
  provider (\<open>Invalid object\<close>): the handler answers with the server error alone. Seven
  calls were made: the first record was created and its inventory count set (the fourth
  call), yet no entry reports it, and the third record is never processed. On the
  update path the same kind of failure is recorded in the record's entry and the batch
  goes on: a stale update followed by a new record yields the entries
  \<open>success = False\<close> and \<open>success = True\<close>.
\<close>

theorem create_failure_aborts_batch:
  "fst (handler ''POST'' True
          (scripted [foundBody ''CAT1'', foundBody ''REP1'', createdBody ''ITEM9'' ''VAR9'', Reply emptyBody,
                     foundBody ''CAT1'', foundBody ''REP1'', failedBody ''Invalid object''])
          [newArtwork ''17'', newArtwork ''18'', newArtwork ''19''])
     = ServerError ''Invalid object''
   \<and> map is_physical_count (snd (handler ''POST'' True
          (scripted [foundBody ''CAT1'', foundBody ''REP1'', createdBody ''ITEM9'' ''VAR9'', Reply emptyBody,
                     foundBody ''CAT1'', foundBody ''REP1'', failedBody ''Invalid object''])
          [newArtwork ''17'', newArtwork ''18'', newArtwork ''19'']))
     = [False, False, False, True, False, False, False]
   \<and> (case fst (handler ''POST'' True
          (scripted [foundBody ''CAT1'', failedBody ''Version mismatch'',
                     foundBody ''CAT1'', foundBody ''REP1'', createdBody ''ITEM9'' ''VAR9'', Reply emptyBody])
          [(newArtwork ''ITEM5'')\<lparr>squareId := Some ''ITEM5'', version := Some 3\<rparr>, newArtwork ''18'']) of
         Uploaded results \<Rightarrow>
           map success results = [False, True]
           \<and> map res_error results = [Some ''Version mismatch'', None]
       | other \<Rightarrow> False)"
  by (simp add: run_defs)

subsection \<open>SKU\<close>

lemma length_getInitials: "length (getInitials name) \<le> 4"
  by (simp add: getInitials_def Let_def substring_def)

text \<open>
  C6 as stated does not hold for the empty artist name: it yields no initial at all,
  and the initials part is \<open>"XXX"\<close>, not the (empty) first three characters of the name
  in upper case.
\<close>

theorem empty_name_initials_counterexample:
  "length (word_initials []) < 2
   \<and> getInitials [] = ''XXX''
   \<and> toUpperCase (take 3 []) = []
   \<and> getInitials [] \<noteq> toUpperCase (take 3 [])"
  by (simp add: getInitials_def word_initials_def trim_def toUpperCase_def)

text \<open>
  C6, amended. For \<open>"Joan Findley-Perls"\<close> the initials are \<open>"JFP"\<close> and the SKU is \<open>"JFP"\<close>
  followed by the SKU number; the empty name has the initials part \<open>"XXX"\<close>; a name of
  ASCII text that is not empty and yields fewer than two initials, such as \<open>"X"\<close>, falls
  back to its first three characters in upper case; for every name of ASCII text the
  initials part never has more than four characters, so the SKU is at most four
  characters longer than its number suffix (which itself has at most four).
\<close>

theorem sku_initials:
  "getInitials ''Joan Findley-Perls'' = ''JFP''
   \<and> (\<forall>now. makeSku ''Joan Findley-Perls'' now = ''JFP'' @ getSkuNumber now)
   \<and> getInitials ''X'' = ''X''
   \<and> getInitials [] = ''XXX''
   \<and> (\<forall>name. ascii name \<and> name \<noteq> [] \<and> length (word_initials name) < 2
         \<longrightarrow> getInitials name = toUpperCase (take 3 name))
   \<and> (\<forall>name. ascii name \<longrightarrow> length (getInitials name) \<le> 4)
   \<and> (\<forall>name now. ascii name \<longrightarrow> length (makeSku name now) \<le> 4 + length (getSkuNumber now))
   \<and> (\<forall>now. length (getSkuNumber now) \<le> 4)"
proof -
  have j: "getInitials ''Joan Findley-Perls'' = ''JFP''"
    by (simp add: getInitials_def word_initials_def trim_def is_space_def is_sep_def
        to_upper_def lower_letters_def upper_letters_def substring_def)
  have x: "getInitials ''X'' = ''X''"
    by (simp add: getInitials_def word_initials_def trim_def is_space_def is_sep_def
        to_upper_def toUpperCase_def lower_letters_def upper_letters_def substring_def)
  have e: "getInitials [] = ''XXX''"
    by (simp add: getInitials_def)
  have f: "getInitials name = toUpperCase (take 3 name)"
    if "ascii name \<and> name \<noteq> [] \<and> length (word_initials name) < 2" for name
    using that by (simp add: getInitials_def Let_def substring_def toUpperCase_def)
  have s: "length (makeSku name now) \<le> 4 + length (getSkuNumber now)" for name now
    using length_getInitials [of name] by (simp add: makeSku_def)
  have n: "length (getSkuNumber now) \<le> 4" for now
    by (simp add: getSkuNumber_def Let_def)
  from j x e f s n length_getInitials show ?thesis
    by (simp add: makeSku_def)
qed

theorem sku_initials_witness:
  "ascii ''Cher'' \<and> ''Cher'' \<noteq> [] \<and> length (word_initials ''Cher'') < 2
   \<and> getInitials ''Cher'' = ''CHE''
   \<and> makeSku ''Cher'' 1730512345678 = ''CHE5678''
   \<and> length (makeSku ''Cher'' 1730512345678) \<le> 4 + length (getSkuNumber 1730512345678)"
proof -
  have a: "ascii ''Cher''"
    by (simp add: ascii_def is_ascii_def)
  have w: "word_initials ''Cher'' = ''C''"
    by (simp add: word_initials_def trim_def is_space_def is_sep_def
        to_upper_def lower_letters_def upper_letters_def)
  from sku_initials have "ascii ''Cher'' \<and> ''Cher'' \<noteq> [] \<and> length (word_initials ''Cher'') < 2
      \<longrightarrow> getInitials ''Cher'' = toUpperCase (take 3 ''Cher'')"
    by blast
  with a w have g: "getInitials ''Cher'' = ''CHE''"
    by (simp add: toUpperCase_def to_upper_def lower_letters_def upper_letters_def)
  from sku_initials have "ascii ''Cher'' \<longrightarrow>
      length (makeSku ''Cher'' 1730512345678) \<le> 4 + length (getSkuNumber 1730512345678)"
    by blast
  with a have l: "length (makeSku ''Cher'' 1730512345678) \<le> 4 + length (getSkuNumber 1730512345678)"
    by simp
  have "getSkuNumber 1730512345678 = ''5678''"
    by (simp add: getSkuNumber_def Let_def show_nat.simps digit_char_def)
  with a g w l show ?thesis by (simp add: makeSku_def)
qed

subsection \<open>Category caches\<close>

lemma reporting_hit:
  "truthy (c name) \<Longrightarrow> getOrCreateReportingCategory e name (c, log) = (Inr (c name), c, log)"
  by (simp add: getOrCreateReportingCategory_def)

lemma reporting_caches:
  assumes "getOrCreateReportingCategory e name (c, log) = (Inr cid, c1, log1)" "truthy cid"
  shows "c1 name = cid"
  using assms
  by (auto simp: getOrCreateReportingCategory_def fetch_def split: if_splits response.splits)

lemma reporting_stable:
  assumes "getOrCreateReportingCategory e other (c, log) = (r, c1, log1)" "truthy (c name)"
  shows "c1 name = c name"
  using assms
  by (auto simp: getOrCreateReportingCategory_def fetch_def split: if_splits response.splits)

lemma category_hit:
  "truthy (c name) \<Longrightarrow> getOrCreateCategory e name i (c, log) = (Inr (c name), c, log)"
  by (simp add: getOrCreateCategory_def)

lemma category_caches:
  assumes "getOrCreateCategory e name i (c, log) = (Inr cid, c1, log1)" "truthy cid"
  shows "c1 name = cid"
  using assms
  by (auto simp: getOrCreateCategory_def fetch_def split: if_splits response.splits)

lemma category_stable:
  assumes "getOrCreateCategory e other i (c, log) = (r, c1, log1)" "truthy (c name)"
  shows "c1 name = c name"
  using assms
  by (auto simp: getOrCreateCategory_def fetch_def split: if_splits response.splits)

text \<open>
  C5 as stated does not hold for the create-and-update handler, which keeps no cache
  and searches again for every record: two new records of the same artist and type in
  one batch, with a provider whose exact-name search does not find the categories (not
  even the ones just created), make the handler create the category
  \<open>"Jane Doe - Painting"\<close> twice and the reporting category \<open>"Jane Doe"\<close> twice, and both
  records are reported as created.
\<close>

theorem uncached_category_counterexample:
  "filter is_create_category
     (snd (handler ''POST'' True
        (scripted [Reply emptyBody, categoryBody ''CAT1'', Reply emptyBody, categoryBody ''REP1'',
                   createdBody ''ITEM9'' ''VAR9'', Reply emptyBody,
                   Reply emptyBody, categoryBody ''CAT2'', Reply emptyBody, categoryBody ''REP2'',
                   createdBody ''ITEM10'' ''VAR10'', Reply emptyBody])
        [newArtwork ''17'', newArtwork ''18'']))
   = [CreateCategory ''#cat-17'' ''Jane Doe - Painting'', CreateCategory ''#repcat-17'' ''Jane Doe'',
      CreateCategory ''#cat-18'' ''Jane Doe - Painting'', CreateCategory ''#repcat-18'' ''Jane Doe'']
   \<and> (case fst (handler ''POST'' True
        (scripted [Reply emptyBody, categoryBody ''CAT1'', Reply emptyBody, categoryBody ''REP1'',
                   createdBody ''ITEM9'' ''VAR9'', Reply emptyBody,
                   Reply emptyBody, categoryBody ''CAT2'', Reply emptyBody, categoryBody ''REP2'',
                   createdBody ''ITEM10'' ''VAR10'', Reply emptyBody])
        [newArtwork ''17'', newArtwork ''18'']) of
         Uploaded results \<Rightarrow> map success results = [True, True]
       | other \<Rightarrow> False)"
  by (simp add: run_defs)

text \<open>
  C5, amended. In the handler that keeps the two batch-local caches: when a resolution
  of a name has returned a (non-empty) provider id, every later resolution of that name
  on the resulting cache returns the same id, leaves the cache as it is and makes no
  request, whatever the provider would answer; and an id that is cached for a name
  stays cached through the resolution of any other name. This holds for the
  reporting-category cache (artist name) and for the category cache (\<open>"Artist - Type"\<close>)
  alike.
\<close>

theorem category_cache_hit:
  "(getOrCreateReportingCategory e name (c, log) = (Inr cid, c1, log1) \<and> truthy cid
      \<longrightarrow> (\<forall>e2 log2. getOrCreateReportingCategory e2 name (c1, log2) = (Inr cid, c1, log2)))
   \<and> (getOrCreateReportingCategory e other (c, log) = (r, c1, log1) \<and> truthy (c name)
      \<longrightarrow> c1 name = c name)
   \<and> (getOrCreateCategory e name i (c, log) = (Inr cid, c1, log1) \<and> truthy cid
      \<longrightarrow> (\<forall>e2 i2 log2. getOrCreateCategory e2 name i2 (c1, log2) = (Inr cid, c1, log2)))
   \<and> (getOrCreateCategory e other i (c, log) = (r, c1, log1) \<and> truthy (c name)
      \<longrightarrow> c1 name = c name)"
proof (intro conjI impI allI)
  fix e2 log2
  assume a: "getOrCreateReportingCategory e name (c, log) = (Inr cid, c1, log1) \<and> truthy cid"
  then have "c1 name = cid" using reporting_caches by blast
  with a show "getOrCreateReportingCategory e2 name (c1, log2) = (Inr cid, c1, log2)"
    using reporting_hit [of c1 name e2 log2] by simp
next
  assume "getOrCreateReportingCategory e other (c, log) = (r, c1, log1) \<and> truthy (c name)"
  then show "c1 name = c name" using reporting_stable by blast
next
  fix e2 i2 log2
  assume a: "getOrCreateCategory e name i (c, log) = (Inr cid, c1, log1) \<and> truthy cid"
  then have "c1 name = cid" using category_caches by blast
  with a show "getOrCreateCategory e2 name i2 (c1, log2) = (Inr cid, c1, log2)"
    using category_hit [of c1 name e2 i2 log2] by simp
next
  assume "getOrCreateCategory e other i (c, log) = (r, c1, log1) \<and> truthy (c name)"
  then show "c1 name = c name" using category_stable by blast
qed

theorem category_cache_hit_witness:
  "(case getOrCreateReportingCategory (scripted [Reply emptyBody, categoryBody ''REP1'']) ''Jane Doe''
           (Map.empty, []) of
      (r, c1, log1) \<Rightarrow>
        r = Inr (Some ''REP1'') \<and> length log1 = 2
        \<and> getOrCreateReportingCategory (scripted []) ''Jane Doe'' (c1, log1) = (r, c1, log1))
   \<and> (case getOrCreateCategory (scripted [foundBody ''CAT1'']) ''Jane Doe - Painting'' ''17''
           (Map.empty, []) of
      (r, c1, log1) \<Rightarrow>
        r = Inr (Some ''CAT1'') \<and> length log1 = 1
        \<and> getOrCreateCategory (scripted []) ''Jane Doe - Painting'' ''18'' (c1, log1) = (r, c1, log1))"
proof -
  let ?e = "scripted [Reply emptyBody, categoryBody ''REP1'']"
  let ?f = "scripted [foundBody ''CAT1'']"
  define c1 where "c1 = fst (snd (getOrCreateReportingCategory ?e ''Jane Doe'' (Map.empty, [])))"
  define l1 where "l1 = snd (snd (getOrCreateReportingCategory ?e ''Jane Doe'' (Map.empty, [])))"
  define c2 where "c2 = fst (snd (getOrCreateCategory ?f ''Jane Doe - Painting'' ''17'' (Map.empty, [])))"
  define l2 where "l2 = snd (snd (getOrCreateCategory ?f ''Jane Doe - Painting'' ''17'' (Map.empty, [])))"
  have r1: "getOrCreateReportingCategory ?e ''Jane Doe'' (Map.empty, []) = (Inr (Some ''REP1''), c1, l1)"
    by (simp add: c1_def l1_def getOrCreateReportingCategory_def fetch_def scripted_def
        emptyBody_def categoryBody_def)
  have r2: "getOrCreateCategory ?f ''Jane Doe - Painting'' ''17'' (Map.empty, []) = (Inr (Some ''CAT1''), c2, l2)"
    by (simp add: c2_def l2_def getOrCreateCategory_def fetch_def scripted_def
        emptyBody_def foundBody_def first_object_id_def)
  have n: "length l1 = 2" "length l2 = 1"
    by (simp_all add: l1_def l2_def getOrCreateReportingCategory_def getOrCreateCategory_def
        fetch_def scripted_def emptyBody_def categoryBody_def foundBody_def)
  have t: "truthy (Some ''REP1'')" "truthy (Some ''CAT1'')" by simp_all
  from category_cache_hit [where e = ?e and name = "''Jane Doe''"
      and c = Map.empty and log = "[]" and cid = "Some ''REP1''" and ?c1.0 = c1 and ?log1.0 = l1]
    r1 t(1)
  have h1: "getOrCreateReportingCategory (scripted []) ''Jane Doe'' (c1, l1) = (Inr (Some ''REP1''), c1, l1)"
    by blast
  from category_cache_hit [where e = ?f and name = "''Jane Doe - Painting''" and i = "''17''"
      and c = Map.empty and log = "[]" and cid = "Some ''CAT1''" and ?c1.0 = c2 and ?log1.0 = l2]
    r2 t(2)
  have h2: "getOrCreateCategory (scripted []) ''Jane Doe - Painting'' ''18'' (c2, l2) = (Inr (Some ''CAT1''), c2, l2)"
    by blast
  from r1 r2 n h1 h2 show ?thesis by simp
qed

subsection \<open>Archive and restore\<close>














subsection \<open>Description codec\<close>

lemma trim_rtrim_ltrim: "trim s = rtrim (ltrim s)"
  by (simp add: trim_def rtrim_def ltrim_def)

lemma rtrim_Nil [simp]: "rtrim [] = []"
  by (simp add: rtrim_def)

lemma rtrim_eq_Nil: "(rtrim s = []) = (\<forall>c \<in> set s. is_space c)"
  by (auto simp: rtrim_def dropWhile_eq_Nil_conv)

lemma rtrim_append: "rtrim (a @ b) = (if rtrim b = [] then rtrim a else a @ rtrim b)"
  by (auto simp: rtrim_def dropWhile_append dropWhile_eq_Nil_conv)

lemma rtrim_Cons: "rtrim (c # s) = (if is_space c \<and> rtrim s = [] then [] else c # rtrim s)"
  using rtrim_append [of "[c]" s] by (auto simp: rtrim_def)

lemma rtrim_idem: "rtrim (rtrim s) = rtrim s"
  by (induction s) (auto simp: rtrim_Cons)

lemma dropWhile_all: "\<forall>x \<in> set s. P x \<Longrightarrow> dropWhile P s = []"
  by (simp add: dropWhile_eq_Nil_conv)

lemma ltrim_rtrim: "ltrim (rtrim s) = rtrim (ltrim s)"
  by (induction s) (auto simp: rtrim_Cons ltrim_def rtrim_eq_Nil dropWhile_all)

lemma trim_idem: "trim (trim s) = trim s"
  by (simp add: trim_rtrim_ltrim ltrim_rtrim rtrim_idem) (simp add: ltrim_def)

lemma find_label_None: "(find_label lab s = None) = (\<not> ci_contains lab s)"
  by (induction s) (auto split: option.splits)

lemma ci_prefix_append_left: "ci_prefix lab a \<Longrightarrow> ci_prefix lab (a @ b)"
  by (induction lab a rule: ci_prefix.induct) auto

lemma ci_prefix_self: "ci_prefix lab (lab @ s)"
  by (induction lab) auto

lemma ci_prefix_nl_aux:
  "\<forall>l \<in> set lab. to_upper l \<noteq> to_upper nl \<Longrightarrow> ci_prefix lab (a @ nl # b) = ci_prefix lab a"
  by (induction lab a rule: ci_prefix.induct) auto

lemma ci_prefix_nl: "nl_free lab \<Longrightarrow> ci_prefix lab (a @ nl # b) = ci_prefix lab a"
  by (simp add: nl_free_def ci_prefix_nl_aux)

lemma ci_prefix_nl_Cons: "nl_free lab \<Longrightarrow> \<not> ci_prefix lab (nl # b)"
  using ci_prefix_nl [of lab "[]" b] by (cases lab) (auto simp: nl_free_def)

lemma ci_contains_nl:
  "nl_free lab \<Longrightarrow> ci_contains lab (a @ nl # b) = (ci_contains lab a \<or> ci_contains lab b)"
proof (induction a)
  case Nil
  then show ?case by (cases lab) (auto simp: nl_free_def)
next
  case (Cons c a)
  then show ?case using ci_prefix_nl [of lab "c # a" b] by auto
qed

lemma find_label_nl:
  "nl_free lab \<Longrightarrow> \<not> ci_contains lab a \<Longrightarrow>
     find_label lab (a @ nl # s) =
       (case find_label lab s of None \<Rightarrow> None | Some (p, r) \<Rightarrow> Some (a @ nl # p, r))"
proof (induction a)
  case Nil
  then show ?case by (auto simp: ci_prefix_nl_Cons split: option.splits)
next
  case (Cons c a)
  then show ?case using ci_prefix_nl [of lab "c # a" s] by (auto split: option.splits)
qed

lemma find_label_nl_Cons:
  "nl_free lab \<Longrightarrow>
     find_label lab (nl # s) =
       (case find_label lab s of None \<Rightarrow> None | Some (p, r) \<Rightarrow> Some (nl # p, r))"
  by (auto simp: ci_prefix_nl_Cons split: option.splits)

lemma find_label_absent: "\<not> ci_contains lab a \<Longrightarrow> find_label lab a = None"
  by (simp add: find_label_None)

lemma takeWhile_to_nl: "nl \<notin> set v \<Longrightarrow> takeWhile (\<lambda>c. c \<noteq> nl) (v @ nl # rest) = v"
  by (induction v) auto

lemma takeWhile_line:
  "nl \<notin> set v \<Longrightarrow> takeWhile (\<lambda>c. c \<noteq> nl) (dropWhile is_hspace (v @ nl # rest)) = dropWhile is_hspace v"
  by (induction v) (auto simp: is_hspace_def takeWhile_to_nl)

lemma takeWhile_last_line:
  "nl \<notin> set v \<Longrightarrow> takeWhile (\<lambda>c. c \<noteq> nl) (dropWhile is_hspace v) = dropWhile is_hspace v"
  by (auto simp: takeWhile_eq_all_conv dest: set_dropWhileD)

lemma dropWhile_line: "nl \<notin> set v \<Longrightarrow> dropWhile (\<lambda>c. c \<noteq> nl) (v @ nl # rest) = nl # rest"
  by (induction v) auto

lemma dropWhile_last_line: "nl \<notin> set v \<Longrightarrow> dropWhile (\<lambda>c. c \<noteq> nl) v = []"
  by (induction v) auto

lemma ltrim_hspace: "ltrim (dropWhile is_hspace v) = ltrim v"
  by (induction v) (auto simp: ltrim_def is_hspace_def)

lemma trim_hspace: "trim (dropWhile is_hspace v) = trim v"
  by (simp add: trim_rtrim_ltrim ltrim_hspace)

lemma nl_free_labels: "nl_free ''Medium:''" "nl_free ''Dimensions:''" "nl_free ''Discounts:''"
  by (simp_all add: nl_free_def to_upper_def lower_letters_def upper_letters_def)

lemma ci_contains_Nil: "ci_contains [] s"
  by (cases s) auto

lemma ci_contains_append_right: "ci_contains lab b \<Longrightarrow> ci_contains lab (a @ b)"
  by (induction a) auto

lemma ci_contains_append_left: "ci_contains lab a \<Longrightarrow> ci_contains lab (a @ b)"
proof (induction a)
  case Nil
  then show ?case by (cases lab) (auto simp: ci_contains_Nil)
next
  case (Cons c a)
  then show ?case using ci_prefix_append_left [of lab "c # a" b] by auto
qed

lemma ci_contains_ltrim: "ci_contains lab (ltrim s) \<Longrightarrow> ci_contains lab s"
  using ci_contains_append_right [of lab "dropWhile is_space s" "takeWhile is_space s"]
  by (simp add: ltrim_def)

lemma rtrim_prefix: "\<exists>w. s = rtrim s @ w"
proof -
  have "rev s = takeWhile is_space (rev s) @ dropWhile is_space (rev s)" by simp
  then have "s = rev (dropWhile is_space (rev s)) @ rev (takeWhile is_space (rev s))"
    by (metis rev_append rev_rev_ident)
  then show ?thesis unfolding rtrim_def by blast
qed

lemma ci_contains_rtrim: "ci_contains lab (rtrim s) \<Longrightarrow> ci_contains lab s"
  using rtrim_prefix [of s] ci_contains_append_left [of lab "rtrim s"] by metis

lemma set_rtrim: "c \<notin> set s \<Longrightarrow> c \<notin> set (rtrim s)"
  using rtrim_prefix [of s] by (metis Un_iff set_append)

lemma ci_contains_trim: "ci_contains lab (trim s) \<Longrightarrow> ci_contains lab s"
  by (auto simp: trim_rtrim_ltrim dest: ci_contains_rtrim ci_contains_ltrim)

lemma trim_shape:
  "\<not> is_space c \<Longrightarrow>
     trim (D @ nl # nl # c # B) =
       (if ltrim D = [] then rtrim (c # B) else ltrim D @ nl # nl # rtrim (c # B))"
  by (auto simp: trim_rtrim_ltrim ltrim_def dropWhile_append rtrim_append rtrim_Cons is_space_def
      dropWhile_eq_Nil_conv)

lemma trim_rtrim: "trim (rtrim s) = trim s"
  by (simp add: trim_rtrim_ltrim ltrim_rtrim rtrim_idem)

lemma trim_ltrim: "trim (ltrim s) = trim s"
  by (simp add: trim_rtrim_ltrim) (simp add: ltrim_def)

lemma trim_empty_rtrim: "rtrim s = [] \<Longrightarrow> trim s = []"
  using trim_rtrim [of s] by (simp add: trim_def)

lemma trim_empty_ltrim: "ltrim s = [] \<Longrightarrow> trim s = []"
  using trim_ltrim [of s] by (simp add: trim_def)

lemma trim_space_Cons: "trim (CHR '' '' # s) = trim s"
  by (simp add: trim_def is_space_def)

lemma trim_append_nls: "trim (s @ [nl, nl]) = trim s"
proof -
  have sp: "is_space nl" by (simp add: is_space_def)
  then have r: "rtrim [nl, nl] = []" by (simp add: rtrim_Cons)
  have l: "ltrim [nl, nl] = []" using sp by (simp add: ltrim_def)
  show ?thesis
  proof (cases "ltrim s = []")
    case True
    then have "ltrim (s @ [nl, nl]) = []"
      using l by (simp add: ltrim_def dropWhile_append dropWhile_eq_Nil_conv)
    with True show ?thesis by (simp add: trim_rtrim_ltrim)
  next
    case False
    then have "ltrim (s @ [nl, nl]) = ltrim s @ [nl, nl]"
      by (auto simp: ltrim_def dropWhile_append dropWhile_eq_Nil_conv)
    with r show ?thesis by (simp add: trim_rtrim_ltrim rtrim_append)
  qed
qed

lemma rtrim_nonspace: "\<not> is_space c \<Longrightarrow> rtrim (c # s) = c # rtrim s"
  by (simp add: rtrim_Cons)

lemma rtrim_Cons_nonempty: "rtrim s \<noteq> [] \<Longrightarrow> rtrim (c # s) = c # rtrim s"
  by (simp add: rtrim_Cons)

lemma rtrim_append_nonempty: "rtrim b \<noteq> [] \<Longrightarrow> rtrim (a @ b) = a @ rtrim b"
  by (simp add: rtrim_append)

lemma ci_contains_rtrim_space:
  "ci_contains lab (rtrim (CHR '' '' # s)) \<Longrightarrow> ci_prefix lab (CHR '' '' # s) \<or> ci_contains lab s"
  by (auto dest: ci_contains_rtrim)

lemma trim_Nil: "trim [] = []"
  by (simp add: trim_def)

lemmas shape_simps =
  trim_Nil trim_shape rtrim_nonspace rtrim_Cons_nonempty rtrim_append_nonempty
  trim_rtrim trim_ltrim trim_empty_ltrim trim_space_Cons trim_append_nls trim_idem

lemma find_hit:
  "find_label ''Medium:'' (''Medium:'' @ s) = Some ([], s)"
  "find_label ''Dimensions:'' (''Dimensions:'' @ s) = Some ([], s)"
  "find_label ''Discounts:'' (''Discounts:'' @ s) = Some ([], s)"
  by (simp_all add: to_upper_def lower_letters_def upper_letters_def)

lemma find_skip:
  "find_label ''Medium:'' (''Dimensions:'' @ s) =
     (case find_label ''Medium:'' s of None \<Rightarrow> None | Some (p, r) \<Rightarrow> Some (''Dimensions:'' @ p, r))"
  "find_label ''Medium:'' (''Discounts:'' @ s) =
     (case find_label ''Medium:'' s of None \<Rightarrow> None | Some (p, r) \<Rightarrow> Some (''Discounts:'' @ p, r))"
  "find_label ''Dimensions:'' (''Medium:'' @ s) =
     (case find_label ''Dimensions:'' s of None \<Rightarrow> None | Some (p, r) \<Rightarrow> Some (''Medium:'' @ p, r))"
  "find_label ''Dimensions:'' (''Discounts:'' @ s) =
     (case find_label ''Dimensions:'' s of None \<Rightarrow> None | Some (p, r) \<Rightarrow> Some (''Discounts:'' @ p, r))"
  "find_label ''Discounts:'' (''Medium:'' @ s) =
     (case find_label ''Discounts:'' s of None \<Rightarrow> None | Some (p, r) \<Rightarrow> Some (''Medium:'' @ p, r))"
  "find_label ''Discounts:'' (''Dimensions:'' @ s) =
     (case find_label ''Discounts:'' s of None \<Rightarrow> None | Some (p, r) \<Rightarrow> Some (''Dimensions:'' @ p, r))"
  by (simp_all add: to_upper_def lower_letters_def upper_letters_def split: option.splits)

lemma find_skip_space:
  "find_label ''Medium:'' (CHR '' '' # s) =
     (case find_label ''Medium:'' s of None \<Rightarrow> None | Some (p, r) \<Rightarrow> Some (CHR '' '' # p, r))"
  "find_label ''Dimensions:'' (CHR '' '' # s) =
     (case find_label ''Dimensions:'' s of None \<Rightarrow> None | Some (p, r) \<Rightarrow> Some (CHR '' '' # p, r))"
  "find_label ''Discounts:'' (CHR '' '' # s) =
     (case find_label ''Discounts:'' s of None \<Rightarrow> None | Some (p, r) \<Rightarrow> Some (CHR '' '' # p, r))"
  by (simp_all add: to_upper_def lower_letters_def upper_letters_def split: option.splits)

declare find_label.simps [simp del]

lemmas find_literal = find_hit [simplified] find_skip [simplified] find_skip_space

lemmas decode_simps =
  decodeDescription_def Let_def label_match_def label_remove_def
  find_literal
  find_label_nl find_label_nl_Cons find_label_absent nl_free_labels
  takeWhile_line takeWhile_last_line dropWhile_line dropWhile_last_line trim_hspace
  is_hspace_def is_space_def

lemma decode_encode_core:
  assumes "\<not> mentions_label (description r)" and "\<not> mentions_label (medium r)"
    and "\<not> mentions_label (dimensionsOf r)" and "\<not> mentions_label (discounts r)"
    and "nl \<notin> set (medium r)" and "nl \<notin> set (dimensionsOf r)" and "nl \<notin> set (discounts r)"
  shows "decodeDescription (encodeDescription r) =
           \<lparr>dec_medium = trim (medium r), dec_dimensions = trim (dimensionsOf r),
            dec_cleanDescription = trim (description r)\<rparr>"
proof -
  define D where "D = description r"
  define m where "m = medium r"
  define d where "d = dimensionsOf r"
  define x where "x = discounts r"
  have free: "\<not> ci_contains lab (ltrim D)" "\<not> ci_contains lab (trim D)"
    "\<not> ci_contains lab m" "\<not> ci_contains lab (rtrim m)"
    "\<not> ci_contains lab d" "\<not> ci_contains lab (rtrim d)"
    "\<not> ci_contains lab x" "\<not> ci_contains lab (rtrim x)"
    "\<not> ci_contains lab (rtrim (CHR '' '' # m))" "\<not> ci_contains lab (rtrim (CHR '' '' # d))"
    "\<not> ci_contains lab (rtrim (CHR '' '' # x))"
    if "lab = ''Medium:'' \<or> lab = ''Dimensions:'' \<or> lab = ''Discounts:''" for lab
    using assms(1-4) that
    by (auto simp: mentions_label_def D_def m_def d_def x_def
        to_upper_def lower_letters_def upper_letters_def
        dest: ci_contains_ltrim ci_contains_rtrim ci_contains_trim
        dest!: ci_contains_rtrim_space)
  note f = free [of "''Medium:''", simplified] free [of "''Dimensions:''", simplified]
    free [of "''Discounts:''", simplified]
  have n: "nl \<notin> set m" "nl \<notin> set d" "nl \<notin> set x"
    "nl \<notin> set (rtrim (CHR '' '' # m))" "nl \<notin> set (rtrim (CHR '' '' # d))"
    "nl \<notin> set (rtrim (CHR '' '' # x))"
    using assms(5-7) by (simp_all add: m_def d_def x_def set_rtrim)
  have enc: "encodeDescription r =
     trim (if (if m \<noteq> [] then [''Medium: '' @ m] else [])
              @ (if d \<noteq> [] then [''Dimensions: '' @ d] else [])
              @ (if x \<noteq> [] then [''Discounts: '' @ x] else []) \<noteq> []
           then D @ [nl, nl] @ join_lines ((if m \<noteq> [] then [''Medium: '' @ m] else [])
              @ (if d \<noteq> [] then [''Dimensions: '' @ d] else [])
              @ (if x \<noteq> [] then [''Discounts: '' @ x] else []))
           else D)"
    by (simp add: encodeDescription_def extraLinesOf_def D_def m_def d_def x_def)
  have "decodeDescription (encodeDescription r) =
           \<lparr>dec_medium = trim m, dec_dimensions = trim d, dec_cleanDescription = trim D\<rparr>"
  proof (cases "m = []")
    case m0: True
    show ?thesis
    proof (cases "d = []")
      case d0: True
      show ?thesis
      proof (cases "x = []")
        case True
        with m0 d0 f n show ?thesis
          by (simp add: enc shape_simps is_space_def) (simp_all add: decode_simps shape_simps)
      next
        case False
        with m0 d0 f n show ?thesis
          by (simp add: enc shape_simps is_space_def) (simp_all add: decode_simps shape_simps)
      qed
    next
      case d1: False
      show ?thesis
      proof (cases "x = []")
        case True
        with m0 d1 f n show ?thesis
          by (simp add: enc shape_simps is_space_def) (simp_all add: decode_simps shape_simps)
      next
        case False
        with m0 d1 f n show ?thesis
          by (simp add: enc shape_simps is_space_def) (simp_all add: decode_simps shape_simps)
      qed
    qed
  next
    case m1: False
    show ?thesis
    proof (cases "d = []")
      case d0: True
      show ?thesis
      proof (cases "x = []")
        case True
        with m1 d0 f n show ?thesis
          by (simp add: enc shape_simps is_space_def) (simp_all add: decode_simps shape_simps)
      next
        case False
        with m1 d0 f n show ?thesis
          by (simp add: enc shape_simps is_space_def) (simp_all add: decode_simps shape_simps)
      qed
    next
      case d1: False
      show ?thesis
      proof (cases "x = []")
        case True
        with m1 d1 f n show ?thesis
          by (simp add: enc shape_simps is_space_def) (simp_all add: decode_simps shape_simps)
      next
        case False
        with m1 d1 f n show ?thesis
          by (simp add: enc shape_simps is_space_def) (simp_all add: decode_simps shape_simps)
      qed
    qed
  qed
  then show ?thesis by (simp add: D_def m_def d_def x_def)
qed

text \<open>
  C2 as stated does not hold, in three ways. The reader never recovers the
  discounts: it cuts the line out and returns no such field, so two records that differ
  only in their discounts decode to the same result. The labels are looked for anywhere
  in the text, not at the beginning of a line: the description
  \<open>"Mixed medium: see notes"\<close> begins with none of the labels, and the decoded medium is
  \<open>"see notes"\<close>, not the record's \<open>"Oil"\<close>. And the decoded values are trimmed: the medium
  \<open>" Oil "\<close> comes back as \<open>"Oil"\<close>.
\<close>

theorem codec_counterexample:
  "decodeDescription (encodeDescription exampleRecord)
     = decodeDescription (encodeDescription (exampleRecord\<lparr>discounts := ''25% off''\<rparr>))
   \<and> discounts exampleRecord \<noteq> ''25% off''
   \<and> \<not> ci_prefix ''Medium:'' ''Mixed medium: see notes''
   \<and> \<not> ci_prefix ''Dimensions:'' ''Mixed medium: see notes''
   \<and> \<not> ci_prefix ''Discounts:'' ''Mixed medium: see notes''
   \<and> dec_medium (decodeDescription (encodeDescription
         (exampleRecord\<lparr>description := ''Mixed medium: see notes''\<rparr>))) = ''see notes''
   \<and> medium (exampleRecord\<lparr>description := ''Mixed medium: see notes''\<rparr>) = ''Oil''
   \<and> dec_medium (decodeDescription (encodeDescription (exampleRecord\<lparr>medium := '' Oil ''\<rparr>))) = ''Oil''"
  by code_simp

text \<open>
  C2, amended. For every artwork record whose description, medium, dimensions text and
  discounts contain none of the labels \<open>Medium:\<close>, \<open>Dimensions:\<close>, \<open>Discounts:\<close> anywhere
  (in any letter case), and whose medium, dimensions text and discounts contain no line
  feed: decoding the encoded description recovers the medium and the dimensions text
  with surrounding white space removed (so exactly, when they have none), and the
  recovered clean description is the record's description trimmed. The discounts are
  not recovered: the decoded result is the same whatever the discounts are.
\<close>

theorem decode_encode_roundtrip:
  assumes "\<not> mentions_label (description r)" and "\<not> mentions_label (medium r)"
    and "\<not> mentions_label (dimensionsOf r)" and "\<not> mentions_label (discounts r)"
    and "nl \<notin> set (medium r)" and "nl \<notin> set (dimensionsOf r)" and "nl \<notin> set (discounts r)"
  shows "decodeDescription (encodeDescription r) =
           \<lparr>dec_medium = trim (medium r), dec_dimensions = trim (dimensionsOf r),
            dec_cleanDescription = trim (description r)\<rparr>
         \<and> (\<forall>other. \<not> mentions_label other \<and> nl \<notin> set other \<longrightarrow>
                decodeDescription (encodeDescription (r\<lparr>discounts := other\<rparr>))
                  = decodeDescription (encodeDescription r))"
proof -
  have 1: "decodeDescription (encodeDescription r) =
           \<lparr>dec_medium = trim (medium r), dec_dimensions = trim (dimensionsOf r),
            dec_cleanDescription = trim (description r)\<rparr>"
    using assms by (rule decode_encode_core)
  have 2: "decodeDescription (encodeDescription (r\<lparr>discounts := other\<rparr>))
                  = decodeDescription (encodeDescription r)"
    if "\<not> mentions_label other \<and> nl \<notin> set other" for other
  proof -
    have d: "dimensionsOf (r\<lparr>discounts := other\<rparr>) = dimensionsOf r"
      by (simp add: dimensionsOf_def)
    have "decodeDescription (encodeDescription (r\<lparr>discounts := other\<rparr>)) =
           \<lparr>dec_medium = trim (medium (r\<lparr>discounts := other\<rparr>)),
            dec_dimensions = trim (dimensionsOf (r\<lparr>discounts := other\<rparr>)),
            dec_cleanDescription = trim (description (r\<lparr>discounts := other\<rparr>))\<rparr>"
      using assms(1,2,3,5,6) that by (intro decode_encode_core) (simp_all add: d)
    with 1 d show ?thesis by simp
  qed
  from 1 2 show ?thesis by blast
qed

theorem decode_encode_roundtrip_witness:
  "\<not> mentions_label (description exampleRecord) \<and> \<not> mentions_label (medium exampleRecord)
   \<and> \<not> mentions_label (dimensionsOf exampleRecord) \<and> \<not> mentions_label (discounts exampleRecord)
   \<and> nl \<notin> set (medium exampleRecord) \<and> nl \<notin> set (dimensionsOf exampleRecord)
   \<and> nl \<notin> set (discounts exampleRecord)
   \<and> encodeDescription exampleRecord
       = ''A quiet landscape.'' @ [nl, nl] @ ''Medium: Oil'' @ [nl] @ ''Dimensions: 5 x 7 in'' @ [nl]
           @ ''Discounts: 10% off''
   \<and> decodeDescription (encodeDescription exampleRecord) =
        \<lparr>dec_medium = ''Oil'', dec_dimensions = ''5 x 7 in'',
         dec_cleanDescription = ''A quiet landscape.''\<rparr>"
proof -
  have h: "\<not> mentions_label (description exampleRecord)" "\<not> mentions_label (medium exampleRecord)"
    "\<not> mentions_label (dimensionsOf exampleRecord)" "\<not> mentions_label (discounts exampleRecord)"
    "nl \<notin> set (medium exampleRecord)" "nl \<notin> set (dimensionsOf exampleRecord)"
    "nl \<notin> set (discounts exampleRecord)"
    by code_simp+
  have t: "trim (medium exampleRecord) = ''Oil''" "trim (dimensionsOf exampleRecord) = ''5 x 7 in''"
    "trim (description exampleRecord) = ''A quiet landscape.''"
    by code_simp+
  have e: "encodeDescription exampleRecord
       = ''A quiet landscape.'' @ [nl, nl] @ ''Medium: Oil'' @ [nl] @ ''Dimensions: 5 x 7 in'' @ [nl]
           @ ''Discounts: 10% off''"
    by code_simp
  from decode_encode_roundtrip [OF h] t
  have "decodeDescription (encodeDescription exampleRecord) =
        \<lparr>dec_medium = ''Oil'', dec_dimensions = ''5 x 7 in'',
         dec_cleanDescription = ''A quiet landscape.''\<rparr>"
    by simp
  with h e show ?thesis by simp
qed

end
